theory Spec2Isabelle
  imports Complex_Main "HOL-Library.Log_Nat" "HOL-Library.Multiset"
begin

section \<open>Python values used by the portfolio analyzer\<close>

text \<open>
  The development embeds the core of the two program files, \<^verbatim>\<open>main.py\<close> and
  \<^verbatim>\<open>mexem.py\<close>. Both define a class \<^verbatim>\<open>PortfolioAnalyzer\<close> with the same method names;
  the definitions taken from \<^verbatim>\<open>main.py\<close> keep the method names, the ones taken from
  \<^verbatim>\<open>mexem.py\<close> carry the prefix \<open>mexem_\<close>. Where the two files have the same text
  (\<^verbatim>\<open>parse_csv_sections\<close>, the symbol grouping, the merge of the performance totals,
  \<^verbatim>\<open>load_and_process\<close>) the shared part is defined once.
\<close>

subsection \<open>Exceptions\<close>

datatype py_error = IndexError | ValueError | ZeroDivisionError

definition bind_err :: "py_error + 'a \<Rightarrow> ('a \<Rightarrow> py_error + 'b) \<Rightarrow> py_error + 'b" where
  "bind_err r f = (case r of Inl e \<Rightarrow> Inl e | Inr v \<Rightarrow> f v)"

subsection \<open>Strings\<close>

text \<open>
  A Python \<^verbatim>\<open>str\<close> is a \<^typ>\<open>string\<close>, a character being its code point (the type has the
  code points below 256). \<^verbatim>\<open>str.strip()\<close> removes the leading and trailing characters
  for which \<^verbatim>\<open>str.isspace\<close> holds: among these code points the codes 9 to 13, 28 to 32,
  133 (U+0085) and 160 (U+00A0, the no-break space). \<^verbatim>\<open>str.lower()\<close> maps the letters A to
  Z to a to z; no other character has a lower-case form among the letters of the two
  tags \<^verbatim>\<open>header\<close> and \<^verbatim>\<open>data\<close>, nor of \<^verbatim>\<open>inf\<close>, \<^verbatim>\<open>infinity\<close> and \<^verbatim>\<open>nan\<close>.
\<close>

definition is_space :: "char \<Rightarrow> bool" where
  "is_space c =
     (let n = (of_char c :: nat)
      in (9 \<le> n \<and> n \<le> 13) \<or> (28 \<le> n \<and> n \<le> 32) \<or> n = 133 \<or> n = 160)"

definition strip :: "string \<Rightarrow> string" where
  "strip s = rev (dropWhile is_space (rev (dropWhile is_space s)))"

definition lower_char :: "char \<Rightarrow> char" where
  "lower_char c =
     (case map_of (zip ''ABCDEFGHIJKLMNOPQRSTUVWXYZ'' ''abcdefghijklmnopqrstuvwxyz'') c of
        None \<Rightarrow> c
      | Some l \<Rightarrow> l)"

definition lower :: "string \<Rightarrow> string" where
  "lower s = map lower_char s"

subsection \<open>Floats\<close>

text \<open>
  A Python \<^verbatim>\<open>float\<close> is an IEEE-754 binary64 number: a finite value, an infinity or a
  NaN. The finite values are carried as the real number they denote; the two zeros
  \<^verbatim>\<open>0.0\<close> and \<^verbatim>\<open>-0.0\<close>, which Python's \<^verbatim>\<open>==\<close> identifies, are one value, and so are the
  integer \<^verbatim>\<open>0\<close> and the float \<^verbatim>\<open>0.0\<close> where the program mixes them.

  Every arithmetic operation of the program returns the exact result rounded to a
  float. The rounding is the parameter \<open>rnd\<close> of the operations below: CPython rounds
  with \<open>round_double\<close> (to the nearest double, ties to the even significand, overflow to
  an infinity), and \<open>Fin\<close> is arithmetic without rounding.
\<close>

datatype pyfloat = Fin real | PInf | NInf | NaN

definition pow2 :: "int \<Rightarrow> real" where
  "pow2 k = (if 0 \<le> k then 2 ^ nat k else 1 / 2 ^ nat (- k))"

text \<open>\<open>ilog2 x\<close> is the binary exponent of a positive \<open>x\<close>: \<open>2 ^ ilog2 x \<le> x < 2 ^ (ilog2 x + 1)\<close>.\<close>

definition ilog2 :: "real \<Rightarrow> int" where
  "ilog2 x =
     (if 1 \<le> x then int (floorlog 2 (nat \<lfloor>x\<rfloor>)) - 1
      else (let k = int (floorlog 2 (nat \<lfloor>1 / x\<rfloor>)) - 1
            in if x * pow2 k = 1 then - k else - k - 1))"

definition round_half_even :: "real \<Rightarrow> int" where
  "round_half_even x =
     (let f = \<lfloor>x\<rfloor>; d = x - of_int f
      in if d < 1 / 2 then f else if 1 / 2 < d then f + 1 else if even f then f else f + 1)"

text \<open>
  Binary64 has 53 significant bits: a value of binary exponent \<open>e\<close> is a multiple of
  \<open>2 ^ (e - 52)\<close>, with \<open>e\<close> not below \<open>-1022\<close> (the subnormal range), and a rounded
  magnitude of \<open>2 ^ 1024\<close> or more overflows.
\<close>

definition round_double :: "real \<Rightarrow> pyfloat" where
  "round_double x =
     (if x = 0 then Fin 0
      else (let e = max (ilog2 \<bar>x\<bar>) (- 1022);
                u = pow2 (e - 52);
                y = of_int (round_half_even (x / u)) * u
            in if pow2 1024 \<le> \<bar>y\<bar> then (if 0 < x then PInf else NInf) else Fin y))"

fun fneg :: "pyfloat \<Rightarrow> pyfloat" where
  "fneg (Fin a) = Fin (- a)"
| "fneg PInf = NInf"
| "fneg NInf = PInf"
| "fneg NaN = NaN"

fun fadd :: "(real \<Rightarrow> pyfloat) \<Rightarrow> pyfloat \<Rightarrow> pyfloat \<Rightarrow> pyfloat" where
  "fadd rnd (Fin a) (Fin b) = rnd (a + b)"
| "fadd rnd NaN y = NaN"
| "fadd rnd x NaN = NaN"
| "fadd rnd PInf NInf = NaN"
| "fadd rnd NInf PInf = NaN"
| "fadd rnd PInf y = PInf"
| "fadd rnd NInf y = NInf"
| "fadd rnd x PInf = PInf"
| "fadd rnd x NInf = NInf"

definition fsub :: "(real \<Rightarrow> pyfloat) \<Rightarrow> pyfloat \<Rightarrow> pyfloat \<Rightarrow> pyfloat" where
  "fsub rnd x y = fadd rnd x (fneg y)"

fun fmul :: "(real \<Rightarrow> pyfloat) \<Rightarrow> pyfloat \<Rightarrow> pyfloat \<Rightarrow> pyfloat" where
  "fmul rnd (Fin a) (Fin b) = rnd (a * b)"
| "fmul rnd NaN y = NaN"
| "fmul rnd x NaN = NaN"
| "fmul rnd (Fin a) PInf = (if a = 0 then NaN else if 0 < a then PInf else NInf)"
| "fmul rnd (Fin a) NInf = (if a = 0 then NaN else if 0 < a then NInf else PInf)"
| "fmul rnd PInf (Fin b) = (if b = 0 then NaN else if 0 < b then PInf else NInf)"
| "fmul rnd NInf (Fin b) = (if b = 0 then NaN else if 0 < b then NInf else PInf)"
| "fmul rnd PInf PInf = PInf"
| "fmul rnd PInf NInf = NInf"
| "fmul rnd NInf PInf = NInf"
| "fmul rnd NInf NInf = PInf"

text \<open>Float division raises \<^verbatim>\<open>ZeroDivisionError\<close> on a zero divisor, whatever the dividend.\<close>

fun fdiv :: "(real \<Rightarrow> pyfloat) \<Rightarrow> pyfloat \<Rightarrow> pyfloat \<Rightarrow> py_error + pyfloat" where
  "fdiv rnd (Fin a) (Fin b) = (if b = 0 then Inl ZeroDivisionError else Inr (rnd (a / b)))"
| "fdiv rnd PInf (Fin b) =
     (if b = 0 then Inl ZeroDivisionError else Inr (if 0 < b then PInf else NInf))"
| "fdiv rnd NInf (Fin b) =
     (if b = 0 then Inl ZeroDivisionError else Inr (if 0 < b then NInf else PInf))"
| "fdiv rnd NaN (Fin b) = (if b = 0 then Inl ZeroDivisionError else Inr NaN)"
| "fdiv rnd x NaN = Inr NaN"
| "fdiv rnd (Fin a) y = Inr (Fin 0)"
| "fdiv rnd x y = Inr NaN"

text \<open>Truth value of a float (\<^verbatim>\<open>x if total else y\<close>) and the comparison \<^verbatim>\<open><\<close>.\<close>

definition truthy :: "pyfloat \<Rightarrow> bool" where
  "truthy x = (x \<noteq> Fin 0)"

fun flt :: "pyfloat \<Rightarrow> pyfloat \<Rightarrow> bool" where
  "flt (Fin a) (Fin b) = (a < b)"
| "flt NaN y = False"
| "flt x NaN = False"
| "flt x NInf = False"
| "flt PInf y = False"
| "flt x y = True"

subsection \<open>The conversion \<^verbatim>\<open>float(s)\<close> of a string\<close>

text \<open>
  \<^verbatim>\<open>float\<close> removes leading and trailing white space, which for this conversion is the
  ASCII white space (the codes 9 to 13 and 32, not the separators 28 to 31) and the
  white space beyond ASCII (the codes 133 and 160), and accepts an optional sign
  followed by \<^verbatim>\<open>inf\<close>, \<^verbatim>\<open>infinity\<close> or \<^verbatim>\<open>nan\<close> in any case, or by a decimal number
  \<^verbatim>\<open>number ::= [digitpart] "." digitpart | digitpart ["."]\<close> with an optional exponent
  \<^verbatim>\<open>("e" | "E") [sign] digitpart\<close>, where \<^verbatim>\<open>digitpart ::= digit (["_"] digit)*\<close>. The digits
  are the ASCII digits. Any other string raises \<^verbatim>\<open>ValueError\<close>, which is the result
  \<open>None\<close>. The value is the decimal number rounded to a float.
\<close>

definition is_float_space :: "char \<Rightarrow> bool" where
  "is_float_space c =
     (let n = (of_char c :: nat) in (9 \<le> n \<and> n \<le> 13) \<or> n = 32 \<or> n = 133 \<or> n = 160)"

definition float_strip :: "string \<Rightarrow> string" where
  "float_strip s = rev (dropWhile is_float_space (rev (dropWhile is_float_space s)))"

definition is_digit :: "char \<Rightarrow> bool" where
  "is_digit c = (c \<in> set ''0123456789'')"

definition digit_val :: "char \<Rightarrow> nat" where
  "digit_val c = of_char c - 48"

fun digits_rest :: "nat \<Rightarrow> string \<Rightarrow> nat option" where
  "digits_rest n [] = Some n"
| "digits_rest n [c] = (if is_digit c then Some (10 * n + digit_val c) else None)"
| "digits_rest n (c # d # cs) =
     (if is_digit c then digits_rest (10 * n + digit_val c) (d # cs)
      else if c = CHR ''_'' \<and> is_digit d then digits_rest (10 * n + digit_val d) cs
      else None)"

definition digitpart :: "string \<Rightarrow> nat option" where
  "digitpart s =
     (case s of
        [] \<Rightarrow> None
      | c # cs \<Rightarrow> if is_digit c then digits_rest (digit_val c) cs else None)"

definition py_number :: "string \<Rightarrow> real option" where
  "py_number s =
     (let ip = takeWhile (\<lambda>c. c \<noteq> CHR ''.'') s;
          rest = dropWhile (\<lambda>c. c \<noteq> CHR ''.'') s
      in case rest of
           [] \<Rightarrow> map_option of_nat (digitpart ip)
         | dot # fp \<Rightarrow>
             if fp = [] then map_option of_nat (digitpart ip)
             else (case digitpart fp of
                     None \<Rightarrow> None
                   | Some f \<Rightarrow>
                       (let scale = 10 ^ length (filter is_digit fp)
                        in if ip = [] then Some (of_nat f / scale)
                           else map_option (\<lambda>i. of_nat i + of_nat f / scale) (digitpart ip))))"

definition py_exponent :: "string \<Rightarrow> int option" where
  "py_exponent s =
     (case s of
        [] \<Rightarrow> None
      | c # cs \<Rightarrow>
          if c = CHR ''-'' then map_option (\<lambda>n. - int n) (digitpart cs)
          else if c = CHR ''+'' then map_option int (digitpart cs)
          else map_option int (digitpart s))"

definition pow10 :: "int \<Rightarrow> real" where
  "pow10 k = (if 0 \<le> k then 10 ^ nat k else 1 / 10 ^ nat (- k))"

definition py_floatnumber :: "string \<Rightarrow> real option" where
  "py_floatnumber s =
     (let m = takeWhile (\<lambda>c. c \<noteq> CHR ''e'' \<and> c \<noteq> CHR ''E'') s;
          rest = dropWhile (\<lambda>c. c \<noteq> CHR ''e'' \<and> c \<noteq> CHR ''E'') s
      in case rest of
           [] \<Rightarrow> py_number m
         | e # ex \<Rightarrow>
             (case py_number m of
                None \<Rightarrow> None
              | Some v \<Rightarrow>
                  (case py_exponent ex of None \<Rightarrow> None | Some k \<Rightarrow> Some (v * pow10 k))))"

definition py_float :: "(real \<Rightarrow> pyfloat) \<Rightarrow> string \<Rightarrow> pyfloat option" where
  "py_float rnd s =
     (let t = float_strip s;
          neg = (case t of [] \<Rightarrow> False | c # cs \<Rightarrow> c = CHR ''-'');
          body = (case t of [] \<Rightarrow> t | c # cs \<Rightarrow> if c = CHR ''-'' \<or> c = CHR ''+'' then cs else t)
      in if lower body = ''inf'' \<or> lower body = ''infinity'' then Some (if neg then NInf else PInf)
         else if lower body = ''nan'' then Some NaN
         else map_option (\<lambda>v. rnd (if neg then - v else v)) (py_floatnumber body))"

subsection \<open>Dictionaries\<close>

text \<open>
  A \<^verbatim>\<open>dict\<close> keeps its keys in insertion order, and the order of the symbols is the
  order of the report: a dictionary is a list of key-value pairs with distinct keys.
  \<open>dict_set\<close> is the assignment \<^verbatim>\<open>d[k] = v\<close>, \<open>dict_get\<close> is \<^verbatim>\<open>d.get(k, default)\<close>, and
  \<open>setdefault_append\<close> is \<^verbatim>\<open>d.setdefault(k, []).append(v)\<close>.
\<close>

fun dict_set :: "'k \<Rightarrow> 'v \<Rightarrow> ('k \<times> 'v) list \<Rightarrow> ('k \<times> 'v) list" where
  "dict_set k v [] = [(k, v)]"
| "dict_set k v ((k', v') # d) = (if k' = k then (k', v) # d else (k', v') # dict_set k v d)"

definition dict_get :: "('k \<times> 'v) list \<Rightarrow> 'k \<Rightarrow> 'v \<Rightarrow> 'v" where
  "dict_get d k dflt = (case map_of d k of None \<Rightarrow> dflt | Some v \<Rightarrow> v)"

fun setdefault_append :: "'k \<Rightarrow> 'v \<Rightarrow> ('k \<times> 'v list) list \<Rightarrow> ('k \<times> 'v list) list" where
  "setdefault_append k v [] = [(k, [v])]"
| "setdefault_append k v ((k', vs) # d) =
     (if k' = k then (k', vs @ [v]) # d else (k', vs) # setdefault_append k v d)"

text \<open>A loop whose body may raise stops at the first exception.\<close>

fun fold_err :: "('a \<Rightarrow> 's \<Rightarrow> py_error + 's) \<Rightarrow> 'a list \<Rightarrow> 's \<Rightarrow> py_error + 's" where
  "fold_err f [] s = Inr s"
| "fold_err f (x # xs) s = bind_err (f x s) (fold_err f xs)"

section \<open>Sections and tables of the input file\<close>

text \<open>
  A row is the list of cells \<^verbatim>\<open>csv.reader\<close> yields for one line (the empty list for a
  blank line). A record is the dictionary built from a header row and a data row.
\<close>

type_synonym row = "string list"

type_synonym str_dict = "(string \<times> string) list"

text \<open>\<^verbatim>\<open>parse_csv_sections\<close> (the same text in both files), applied to the rows read.\<close>

definition parse_csv_sections :: "row list \<Rightarrow> (string \<times> row list) list" where
  "parse_csv_sections rows =
     fold (\<lambda>row sections.
             case row of
               [] \<Rightarrow> sections
             | c # cs \<Rightarrow> setdefault_append (strip c) row sections)
          rows []"

text \<open>
  The dictionary comprehension
  \<^verbatim>\<open>{header[i]: row[i+2].strip() for i in range(min(len(header), len(row)-2))}\<close>.
\<close>

definition make_record :: "string list \<Rightarrow> row \<Rightarrow> str_dict" where
  "make_record header row =
     fold (\<lambda>(k, v) d. dict_set k v d) (zip header (map strip (drop 2 row))) []"

text \<open>
  The first loop of \<^verbatim>\<open>process_trades\<close>: the state is the header (\<open>None\<close> before the first
  header row) and the trades extracted so far. \<^verbatim>\<open>main.py\<close> compares the lower-cased tag
  with \<^verbatim>\<open>header\<close> and \<^verbatim>\<open>data\<close>, \<^verbatim>\<open>mexem.py\<close> compares the tag with \<^verbatim>\<open>Header\<close> and \<^verbatim>\<open>Data\<close>.
  The test \<^verbatim>\<open>and header\<close> holds for a header that is a non-empty list.
\<close>

definition process_trades_row ::
    "row \<Rightarrow> string list option \<times> str_dict list \<Rightarrow> string list option \<times> str_dict list" where
  "process_trades_row row st =
     (case st of (header, trades) \<Rightarrow>
        if length row < 3 then (header, trades)
        else if lower (strip (row ! 1)) = ''header'' then (Some (map strip (drop 2 row)), trades)
        else (case header of
                None \<Rightarrow> (header, trades)
              | Some h \<Rightarrow>
                  if lower (strip (row ! 1)) = ''data'' \<and> h \<noteq> []
                  then (header, trades @ [make_record h row])
                  else (header, trades)))"

definition mexem_process_trades_row ::
    "row \<Rightarrow> string list option \<times> str_dict list \<Rightarrow> string list option \<times> str_dict list" where
  "mexem_process_trades_row row st =
     (case st of (header, trades) \<Rightarrow>
        if length row < 3 then (header, trades)
        else if strip (row ! 1) = ''Header'' then (Some (map strip (drop 2 row)), trades)
        else (case header of
                None \<Rightarrow> (header, trades)
              | Some h \<Rightarrow>
                  if strip (row ! 1) = ''Data'' \<and> h \<noteq> []
                  then (header, trades @ [make_record h row])
                  else (header, trades)))"

text \<open>
  The second loop of \<^verbatim>\<open>process_trades\<close> (the same text in both files):
  \<^verbatim>\<open>symbol = trade.get("Symbol")\<close>, and \<^verbatim>\<open>if symbol:\<close> holds for a non-empty string.
\<close>

definition group_by_symbol :: "str_dict list \<Rightarrow> (string \<times> str_dict list) list" where
  "group_by_symbol trades =
     fold (\<lambda>trade trades_by_symbol.
             case map_of trade ''Symbol'' of
               None \<Rightarrow> trades_by_symbol
             | Some symbol \<Rightarrow>
                 if symbol = [] then trades_by_symbol
                 else setdefault_append symbol trade trades_by_symbol)
          trades []"

definition process_trades :: "row list \<Rightarrow> (string \<times> str_dict list) list" where
  "process_trades rows = group_by_symbol (snd (fold process_trades_row rows (None, [])))"

definition mexem_process_trades :: "row list \<Rightarrow> (string \<times> str_dict list) list" where
  "mexem_process_trades trades_rows =
     group_by_symbol (snd (fold mexem_process_trades_row trades_rows (None, [])))"

text \<open>
  \<^verbatim>\<open>process_realized_summary\<close> and \<^verbatim>\<open>process_deposits\<close> read \<^verbatim>\<open>row[1]\<close> with no test of the
  length of the row: a row of fewer than two cells raises \<^verbatim>\<open>IndexError\<close>.
\<close>

definition process_realized_summary_row ::
    "row \<Rightarrow> string list option \<times> (string \<times> str_dict) list
       \<Rightarrow> py_error + string list option \<times> (string \<times> str_dict) list" where
  "process_realized_summary_row row st =
     (case st of (header, summary) \<Rightarrow>
        (case row of
           c0 # c1 # cs \<Rightarrow>
             if lower (strip c1) = ''header'' then Inr (Some (map strip (drop 2 row)), summary)
             else (case header of
                     None \<Rightarrow> Inr (header, summary)
                   | Some h \<Rightarrow>
                       if lower (strip c1) = ''data'' \<and> h \<noteq> []
                       then (let data = make_record h row;
                                 symbol = dict_get data ''Symbol'' ''Unknown''
                             in Inr (header, dict_set symbol data summary))
                       else Inr (header, summary))
         | _ \<Rightarrow> Inl IndexError))"

definition mexem_process_realized_summary_row ::
    "row \<Rightarrow> string list option \<times> (string \<times> str_dict) list
       \<Rightarrow> py_error + string list option \<times> (string \<times> str_dict) list" where
  "mexem_process_realized_summary_row row st =
     (case st of (header, summary) \<Rightarrow>
        (case row of
           c0 # c1 # cs \<Rightarrow>
             if strip c1 = ''Header'' then Inr (Some (map strip (drop 2 row)), summary)
             else (case header of
                     None \<Rightarrow> Inr (header, summary)
                   | Some h \<Rightarrow>
                       if strip c1 = ''Data'' \<and> h \<noteq> []
                       then (let data = make_record h row;
                                 symbol = dict_get data ''Symbol'' ''Unknown''
                             in Inr (header, dict_set symbol data summary))
                       else Inr (header, summary))
         | _ \<Rightarrow> Inl IndexError))"

definition process_realized_summary :: "row list \<Rightarrow> py_error + (string \<times> str_dict) list" where
  "process_realized_summary rows =
     bind_err (fold_err process_realized_summary_row rows (None, [])) (\<lambda>st. Inr (snd st))"

definition mexem_process_realized_summary :: "row list \<Rightarrow> py_error + (string \<times> str_dict) list" where
  "mexem_process_realized_summary rows =
     bind_err (fold_err mexem_process_realized_summary_row rows (None, [])) (\<lambda>st. Inr (snd st))"

definition process_deposits_row ::
    "row \<Rightarrow> string list option \<times> str_dict list \<Rightarrow> py_error + string list option \<times> str_dict list" where
  "process_deposits_row row st =
     (case st of (header, deposits) \<Rightarrow>
        (case row of
           c0 # c1 # cs \<Rightarrow>
             if lower (strip c1) = ''header'' then Inr (Some (map strip (drop 2 row)), deposits)
             else (case header of
                     None \<Rightarrow> Inr (header, deposits)
                   | Some h \<Rightarrow>
                       if lower (strip c1) = ''data'' \<and> h \<noteq> []
                       then Inr (header, deposits @ [make_record h row])
                       else Inr (header, deposits))
         | _ \<Rightarrow> Inl IndexError))"

definition mexem_process_deposits_row ::
    "row \<Rightarrow> string list option \<times> str_dict list \<Rightarrow> py_error + string list option \<times> str_dict list" where
  "mexem_process_deposits_row row st =
     (case st of (header, deposits) \<Rightarrow>
        (case row of
           c0 # c1 # cs \<Rightarrow>
             if strip c1 = ''Header'' then Inr (Some (map strip (drop 2 row)), deposits)
             else (case header of
                     None \<Rightarrow> Inr (header, deposits)
                   | Some h \<Rightarrow>
                       if strip c1 = ''Data'' \<and> h \<noteq> []
                       then Inr (header, deposits @ [make_record h row])
                       else Inr (header, deposits))
         | _ \<Rightarrow> Inl IndexError))"

definition process_deposits :: "row list \<Rightarrow> py_error + str_dict list" where
  "process_deposits rows =
     bind_err (fold_err process_deposits_row rows (None, [])) (\<lambda>st. Inr (snd st))"

definition mexem_process_deposits :: "row list \<Rightarrow> py_error + str_dict list" where
  "mexem_process_deposits rows =
     bind_err (fold_err mexem_process_deposits_row rows (None, [])) (\<lambda>st. Inr (snd st))"

section \<open>Transaction metrics\<close>

text \<open>
  The dictionary \<^verbatim>\<open>compute_transaction_metrics\<close> returns. \<^verbatim>\<open>mexem.py\<close> returns the first six
  entries, \<^verbatim>\<open>main.py\<close> returns them and \<^verbatim>\<open>commission\<close>. The result \<open>Inr None\<close> is the
  returned \<^verbatim>\<open>None\<close>, and \<open>Inl e\<close> is the exception \<open>e\<close> leaving the function.
\<close>

record mexem_transaction_metrics =
  quantity :: pyfloat
  trade_price :: pyfloat
  cost :: pyfloat
  current_value :: pyfloat
  profit_loss :: pyfloat
  percentage_return :: "pyfloat option"

record transaction_metrics = mexem_transaction_metrics +
  commission :: pyfloat

text \<open>\<^verbatim>\<open>(profit_loss / cost * 100) if cost else None\<close>, the same expression at both levels.\<close>

definition pct_of :: "(real \<Rightarrow> pyfloat) \<Rightarrow> pyfloat \<Rightarrow> pyfloat \<Rightarrow> py_error + pyfloat option" where
  "pct_of rnd pl c =
     (if truthy c then bind_err (fdiv rnd pl c) (\<lambda>q. Inr (Some (fmul rnd q (Fin 100))))
      else Inr None)"

definition compute_transaction_metrics ::
    "(real \<Rightarrow> pyfloat) \<Rightarrow> str_dict \<Rightarrow> pyfloat \<Rightarrow> py_error + transaction_metrics option" where
  "compute_transaction_metrics rnd trade cur_price =
     (case py_float rnd (dict_get trade ''Quantity'' ''0'') of
        None \<Rightarrow> Inr None
      | Some qty \<Rightarrow>
          (case py_float rnd (dict_get trade ''T. Price'' ''0'') of
             None \<Rightarrow> Inr None
           | Some t_price \<Rightarrow>
               (let cst = fmul rnd qty t_price;
                    current_val = fmul rnd qty cur_price;
                    pl = fsub rnd current_val cst
                in bind_err (pct_of rnd pl cst) (\<lambda>pct_return.
                     (case py_float rnd (dict_get trade ''Comm/Fee'' ''0'') of
                        None \<Rightarrow> Inl ValueError
                      | Some comm \<Rightarrow>
                          Inr (Some \<lparr>quantity = qty, trade_price = t_price, cost = cst,
                                     current_value = current_val, profit_loss = pl,
                                     percentage_return =
                                       (if flt qty (Fin 0) \<and> pct_return \<noteq> None
                                        then map_option fneg pct_return else pct_return),
                                     commission = comm\<rparr>))))))"

definition mexem_compute_transaction_metrics ::
    "(real \<Rightarrow> pyfloat) \<Rightarrow> str_dict \<Rightarrow> pyfloat \<Rightarrow> py_error + mexem_transaction_metrics option" where
  "mexem_compute_transaction_metrics rnd trade cur_price =
     (case py_float rnd (dict_get trade ''Quantity'' ''0'') of
        None \<Rightarrow> Inr None
      | Some qty \<Rightarrow>
          (case py_float rnd (dict_get trade ''T. Price'' ''0'') of
             None \<Rightarrow> Inr None
           | Some t_price \<Rightarrow>
               (let cst = fmul rnd qty t_price;
                    current_val = fmul rnd qty cur_price;
                    pl = fsub rnd current_val cst
                in bind_err (pct_of rnd pl cst) (\<lambda>pct_return.
                     Inr (Some \<lparr>quantity = qty, trade_price = t_price, cost = cst,
                                current_value = current_val, profit_loss = pl,
                                percentage_return =
                                  (if flt qty (Fin 0) \<and> pct_return \<noteq> None
                                   then map_option fneg pct_return else pct_return)\<rparr>)))))"

section \<open>Asset metrics\<close>

record assetmetrics =
  total_quantity :: pyfloat
  total_cost :: pyfloat
  avg_purchase_price :: pyfloat
  current_price :: pyfloat
  current_value :: pyfloat
  absolute_pl :: pyfloat
  percentage_return :: "pyfloat option"
  realized_total :: pyfloat
  unrealized_total :: pyfloat

text \<open>
  One iteration of the inner loop of \<^verbatim>\<open>compute_asset_metrics\<close>, on the pair of the two
  running totals. A \<^verbatim>\<open>ValueError\<close> of one of the conversions leaves the loop body
  (\<^verbatim>\<open>except ValueError: continue\<close>) before either total is changed.
\<close>

definition add_trade :: "(real \<Rightarrow> pyfloat) \<Rightarrow> str_dict \<Rightarrow> pyfloat \<times> pyfloat \<Rightarrow> pyfloat \<times> pyfloat" where
  "add_trade rnd trade totals =
     (case totals of (total_qty, total_cst) \<Rightarrow>
        (case py_float rnd (dict_get trade ''Quantity'' ''0'') of
           None \<Rightarrow> totals
         | Some qty \<Rightarrow>
             (case py_float rnd (dict_get trade ''T. Price'' ''0'') of
                None \<Rightarrow> totals
              | Some price \<Rightarrow>
                  (case py_float rnd (dict_get trade ''Comm/Fee'' ''0'') of
                     None \<Rightarrow> totals
                   | Some comm \<Rightarrow>
                       (fadd rnd total_qty qty,
                        fadd rnd total_cst (fsub rnd (fmul rnd qty price) comm))))))"

definition mexem_add_trade ::
    "(real \<Rightarrow> pyfloat) \<Rightarrow> str_dict \<Rightarrow> pyfloat \<times> pyfloat \<Rightarrow> pyfloat \<times> pyfloat" where
  "mexem_add_trade rnd trade totals =
     (case totals of (total_qty, total_cst) \<Rightarrow>
        (case py_float rnd (dict_get trade ''Quantity'' ''0'') of
           None \<Rightarrow> totals
         | Some qty \<Rightarrow>
             if flt (Fin 0) qty
             then (case py_float rnd (dict_get trade ''T. Price'' ''0'') of
                     None \<Rightarrow> totals
                   | Some t_price \<Rightarrow>
                       (fadd rnd total_qty qty, fadd rnd total_cst (fmul rnd qty t_price)))
             else totals))"

text \<open>
  The merge of the performance summary: both conversions are in one \<^verbatim>\<open>try\<close>, whose
  handler sets both totals to 0.
\<close>

definition realized_totals ::
    "(real \<Rightarrow> pyfloat) \<Rightarrow> (string \<times> str_dict) list \<Rightarrow> string \<Rightarrow> pyfloat \<times> pyfloat" where
  "realized_totals rnd realized_summary symbol =
     (let realized_data = dict_get realized_summary symbol []
      in case py_float rnd (dict_get realized_data ''Realized Total'' ''0'') of
           None \<Rightarrow> (Fin 0, Fin 0)
         | Some realized \<Rightarrow>
             (case py_float rnd (dict_get realized_data ''Unrealized Total'' ''0'') of
                None \<Rightarrow> (Fin 0, Fin 0)
              | Some unrealized \<Rightarrow> (realized, unrealized)))"

text \<open>
  The body of the outer loop after the inner loop, the same in both files: from the two
  totals to the dictionary stored under the symbol. \<open>current_prices\<close> is the map of the
  prices given on the command line.
\<close>

definition metrics_of_totals ::
    "(real \<Rightarrow> pyfloat) \<Rightarrow> (string \<rightharpoonup> pyfloat) \<Rightarrow> (string \<times> str_dict) list \<Rightarrow> string
       \<Rightarrow> pyfloat \<times> pyfloat \<Rightarrow> py_error + assetmetrics" where
  "metrics_of_totals rnd current_prices realized_summary symbol totals =
     (case totals of (total_qty, total_cst) \<Rightarrow>
        bind_err (if truthy total_qty then fdiv rnd total_cst total_qty else Inr (Fin 0))
          (\<lambda>avg_price.
             (let cur_price = (case current_prices symbol of None \<Rightarrow> avg_price | Some p \<Rightarrow> p);
                  cur_value = fmul rnd total_qty cur_price;
                  abs_pl = fsub rnd cur_value total_cst
              in bind_err (pct_of rnd abs_pl total_cst)
                   (\<lambda>pct_return.
                      (case realized_totals rnd realized_summary symbol of
                         (realized, unrealized) \<Rightarrow>
                           Inr \<lparr>total_quantity = total_qty, total_cost = total_cst,
                                avg_purchase_price = avg_price, current_price = cur_price,
                                current_value = cur_value, absolute_pl = abs_pl,
                                percentage_return = pct_return,
                                realized_total = realized, unrealized_total = unrealized\<rparr>)))))"

definition symbol_metrics ::
    "(real \<Rightarrow> pyfloat) \<Rightarrow> (string \<rightharpoonup> pyfloat) \<Rightarrow> (string \<times> str_dict) list \<Rightarrow> string
       \<Rightarrow> str_dict list \<Rightarrow> py_error + assetmetrics" where
  "symbol_metrics rnd current_prices realized_summary symbol trades =
     metrics_of_totals rnd current_prices realized_summary symbol
       (fold (add_trade rnd) trades (Fin 0, Fin 0))"

definition mexem_symbol_metrics ::
    "(real \<Rightarrow> pyfloat) \<Rightarrow> (string \<rightharpoonup> pyfloat) \<Rightarrow> (string \<times> str_dict) list \<Rightarrow> string
       \<Rightarrow> str_dict list \<Rightarrow> py_error + assetmetrics" where
  "mexem_symbol_metrics rnd current_prices realized_summary symbol trades =
     metrics_of_totals rnd current_prices realized_summary symbol
       (fold (mexem_add_trade rnd) trades (Fin 0, Fin 0))"

definition compute_asset_metrics ::
    "(real \<Rightarrow> pyfloat) \<Rightarrow> (string \<rightharpoonup> pyfloat) \<Rightarrow> (string \<times> str_dict list) list
       \<Rightarrow> (string \<times> str_dict) list \<Rightarrow> py_error + (string \<times> assetmetrics) list" where
  "compute_asset_metrics rnd current_prices trades_by_symbol realized_summary =
     fold_err (\<lambda>(symbol, trades) metrics.
                 bind_err (symbol_metrics rnd current_prices realized_summary symbol trades)
                   (\<lambda>m. Inr (dict_set symbol m metrics)))
              trades_by_symbol []"

definition mexem_compute_asset_metrics ::
    "(real \<Rightarrow> pyfloat) \<Rightarrow> (string \<rightharpoonup> pyfloat) \<Rightarrow> (string \<times> str_dict list) list
       \<Rightarrow> (string \<times> str_dict) list \<Rightarrow> py_error + (string \<times> assetmetrics) list" where
  "mexem_compute_asset_metrics rnd current_prices trades_by_symbol realized_summary =
     fold_err (\<lambda>(symbol, trades) metrics.
                 bind_err (mexem_symbol_metrics rnd current_prices realized_summary symbol trades)
                   (\<lambda>m. Inr (dict_set symbol m metrics)))
              trades_by_symbol []"

section \<open>The pipeline\<close>

text \<open>
  \<^verbatim>\<open>load_and_process\<close>, from the rows of the file to the attributes of the analyzer. An
  attribute whose section is missing keeps its initial value, the empty dictionary or
  list.
\<close>

record portfolio_analyzer =
  sections :: "(string \<times> row list) list"
  trades_by_symbol :: "(string \<times> str_dict list) list"
  realized_summary :: "(string \<times> str_dict) list"
  deposits :: "str_dict list"
  asset_metrics :: "(string \<times> assetmetrics) list"

definition load_and_process ::
    "(real \<Rightarrow> pyfloat) \<Rightarrow> (string \<rightharpoonup> pyfloat) \<Rightarrow> row list \<Rightarrow> py_error + portfolio_analyzer" where
  "load_and_process rnd current_prices csv_rows =
     (let secs = parse_csv_sections csv_rows;
          tbs = (case map_of secs ''Trades'' of None \<Rightarrow> [] | Some rows \<Rightarrow> process_trades rows)
      in bind_err (case map_of secs ''Realized & Unrealized Performance Summary'' of
                     None \<Rightarrow> Inr []
                   | Some rows \<Rightarrow> process_realized_summary rows)
           (\<lambda>summary.
              bind_err (case map_of secs ''Deposits & Withdrawals'' of
                          None \<Rightarrow> Inr []
                        | Some rows \<Rightarrow> process_deposits rows)
                (\<lambda>deps.
                   bind_err (compute_asset_metrics rnd current_prices tbs summary)
                     (\<lambda>metrics.
                        Inr \<lparr>sections = secs, trades_by_symbol = tbs, realized_summary = summary,
                             deposits = deps, asset_metrics = metrics\<rparr>))))"

definition mexem_load_and_process ::
    "(real \<Rightarrow> pyfloat) \<Rightarrow> (string \<rightharpoonup> pyfloat) \<Rightarrow> row list \<Rightarrow> py_error + portfolio_analyzer" where
  "mexem_load_and_process rnd current_prices csv_rows =
     (let secs = parse_csv_sections csv_rows;
          tbs = (case map_of secs ''Trades'' of None \<Rightarrow> [] | Some rows \<Rightarrow> mexem_process_trades rows)
      in bind_err (case map_of secs ''Realized & Unrealized Performance Summary'' of
                     None \<Rightarrow> Inr []
                   | Some rows \<Rightarrow> mexem_process_realized_summary rows)
           (\<lambda>summary.
              bind_err (case map_of secs ''Deposits & Withdrawals'' of
                          None \<Rightarrow> Inr []
                        | Some rows \<Rightarrow> mexem_process_deposits rows)
                (\<lambda>deps.
                   bind_err (mexem_compute_asset_metrics rnd current_prices tbs summary)
                     (\<lambda>metrics.
                        Inr \<lparr>sections = secs, trades_by_symbol = tbs, realized_summary = summary,
                             deposits = deps, asset_metrics = metrics\<rparr>))))"

section \<open>Evaluation rules\<close>

text \<open>The definitions unfolded to run the model on a concrete input.\<close>

lemmas str_eval = strip_def is_space_def lower_def lower_char_def

lemmas rd_eval = round_double_def ilog2_def pow2_def round_half_even_def Let_def compute_floorlog

lemmas float_eval = py_float_def float_strip_def is_float_space_def py_floatnumber_def
  py_number_def py_exponent_def digitpart_def is_digit_def digit_val_def pow10_def

section \<open>Dictionaries with list values\<close>

lemma map_of_setdefault_append:
  "map_of (setdefault_append k v d) k' =
     (if k' = k then Some (case map_of d k of None \<Rightarrow> [v] | Some vs \<Rightarrow> vs @ [v])
      else map_of d k')"
  by (induction d) auto

lemma keys_setdefault_append:
  "map fst (setdefault_append k v d) =
     (if k \<in> set (map fst d) then map fst d else map fst d @ [k])"
  by (induction d) force+

lemma distinct_setdefault_append:
  "distinct (map fst d) \<Longrightarrow> distinct (map fst (setdefault_append k v d))"
  by (simp add: keys_setdefault_append)

lemma size_setdefault_append:
  "sum_list (map (\<lambda>p. length (snd p)) (setdefault_append k v d)) =
     Suc (sum_list (map (\<lambda>p. length (snd p)) d))"
  by (induction d) auto

section \<open>Section splitting is a partition\<close>

lemma fold_sections_map_of:
  "map_of (fold (\<lambda>row sections.
                   case row of
                     [] \<Rightarrow> sections
                   | c # cs \<Rightarrow> setdefault_append (strip c) row sections) rows d) name =
     (case map_of d name of
        None \<Rightarrow>
          (if filter (\<lambda>row. row \<noteq> [] \<and> strip (hd row) = name) rows = [] then None
           else Some (filter (\<lambda>row. row \<noteq> [] \<and> strip (hd row) = name) rows))
      | Some vs \<Rightarrow> Some (vs @ filter (\<lambda>row. row \<noteq> [] \<and> strip (hd row) = name) rows))"
proof (induction rows arbitrary: d)
  case Nil
  then show ?case by (simp split: option.splits)
next
  case (Cons row rows)
  show ?case
  proof (cases row)
    assume e: "row = []"
    show ?thesis using Cons.IH [of d] by (simp add: e split: option.splits)
  next
    fix c cs assume e: "row = c # cs"
    show ?thesis
      using Cons.IH [of "setdefault_append (strip c) row d"]
      by (auto simp: e map_of_setdefault_append split: option.splits)
  qed
qed

lemma fold_sections_distinct:
  "distinct (map fst d) \<Longrightarrow>
   distinct (map fst (fold (\<lambda>row sections.
                              case row of
                                [] \<Rightarrow> sections
                              | c # cs \<Rightarrow> setdefault_append (strip c) row sections) rows d))"
  by (induction rows arbitrary: d) (auto simp: distinct_setdefault_append split: list.splits)

lemma fold_sections_size:
  "sum_list (map (\<lambda>p. length (snd p))
       (fold (\<lambda>row sections.
                case row of
                  [] \<Rightarrow> sections
                | c # cs \<Rightarrow> setdefault_append (strip c) row sections) rows d)) =
     sum_list (map (\<lambda>p. length (snd p)) d) + length (filter (\<lambda>row. row \<noteq> []) rows)"
  by (induction rows arbitrary: d) (auto simp: size_setdefault_append split: list.splits)

text \<open>
  Claim C8. \<^verbatim>\<open>parse_csv_sections\<close> partitions the rows: the section names are distinct
  keys; the group of a name is the list, in file order, of exactly the non-empty rows
  whose stripped first cell is that name, and a name with no such row has no group; the
  rows without cells are the only rows left out, so the sizes of the groups add up to
  the number of non-empty rows.
\<close>

theorem parse_csv_sections_partition:
  "distinct (map fst (parse_csv_sections rows)) \<and>
   (\<forall>name. map_of (parse_csv_sections rows) name =
      (if filter (\<lambda>row. row \<noteq> [] \<and> strip (hd row) = name) rows = [] then None
       else Some (filter (\<lambda>row. row \<noteq> [] \<and> strip (hd row) = name) rows))) \<and>
   sum_list (map (\<lambda>p. length (snd p)) (parse_csv_sections rows)) =
     length (filter (\<lambda>row. row \<noteq> []) rows)"
  unfolding parse_csv_sections_def
  by (simp add: fold_sections_map_of fold_sections_distinct fold_sections_size)

theorem parse_csv_sections_partition_witness:
  "map_of (parse_csv_sections [[''Trades '', ''x''], [], [''Cash''], [CHR 0xA0 # ''Trades'']]) ''Trades'' =
     Some [[''Trades '', ''x''], [CHR 0xA0 # ''Trades'']] \<and>
   sum_list (map (\<lambda>p. length (snd p))
     (parse_csv_sections [[''Trades '', ''x''], [], [''Cash''], [CHR 0xA0 # ''Trades'']])) = 3"
  using parse_csv_sections_partition [of "[[''Trades '', ''x''], [], [''Cash''], [CHR 0xA0 # ''Trades'']]"]
  by (simp add: str_eval)

section \<open>Grouping the trades by symbol\<close>

lemma remdups_snoc:
  "remdups (ys @ [s]) = filter (\<lambda>x. x \<noteq> s) (remdups ys) @ [s]"
  by (induction ys) auto

lemma first_seen_snoc:
  "rev (remdups (rev (filter P xs) @ [s])) =
     s # rev (remdups (rev (filter (\<lambda>x. x \<noteq> s \<and> P x) xs)))"
proof -
  have "filter (\<lambda>x. x \<noteq> s) (filter P ys) = filter (\<lambda>x. x \<noteq> s \<and> P x) ys" for ys
    by (induction ys) auto
  then show ?thesis
    by (simp add: remdups_snoc rev_filter remdups_filter del: filter_filter)
qed

lemma fold_group_skip:
  "fold (\<lambda>trade tbs.
           case map_of trade ''Symbol'' of
             None \<Rightarrow> tbs
           | Some symbol \<Rightarrow> if symbol = [] then tbs else setdefault_append symbol trade tbs)
        (filter (\<lambda>t. dict_get t ''Symbol'' [] \<noteq> []) trades) d =
   fold (\<lambda>trade tbs.
           case map_of trade ''Symbol'' of
             None \<Rightarrow> tbs
           | Some symbol \<Rightarrow> if symbol = [] then tbs else setdefault_append symbol trade tbs)
        trades d"
  by (induction trades arbitrary: d) (auto simp: dict_get_def split: option.splits)

lemma fold_group_map_of:
  "map_of (fold (\<lambda>trade tbs.
           case map_of trade ''Symbol'' of
             None \<Rightarrow> tbs
           | Some symbol \<Rightarrow> if symbol = [] then tbs else setdefault_append symbol trade tbs)
        trades d) s =
     (case map_of d s of
        None \<Rightarrow>
          (if s = [] \<or> filter (\<lambda>t. map_of t ''Symbol'' = Some s) trades = [] then None
           else Some (filter (\<lambda>t. map_of t ''Symbol'' = Some s) trades))
      | Some vs \<Rightarrow>
          (if s = [] then Some vs else Some (vs @ filter (\<lambda>t. map_of t ''Symbol'' = Some s) trades)))"
proof (induction trades arbitrary: d)
  case Nil
  then show ?case by (simp split: option.splits)
next
  case (Cons t ts)
  show ?case
  proof (cases "map_of t ''Symbol''")
    assume e: "map_of t ''Symbol'' = None"
    show ?thesis using Cons.IH [of d] by (simp add: e split: option.splits)
  next
    fix sym assume e: "map_of t ''Symbol'' = Some sym"
    show ?thesis
    proof (cases "sym = []")
      case True
      then show ?thesis using Cons.IH [of d] by (auto simp: e split: option.splits)
    next
      case False
      then show ?thesis
        using Cons.IH [of "setdefault_append sym t d"]
        by (auto simp: e map_of_setdefault_append split: option.splits)
    qed
  qed
qed

lemma fold_group_keys:
  "map fst (fold (\<lambda>trade tbs.
           case map_of trade ''Symbol'' of
             None \<Rightarrow> tbs
           | Some symbol \<Rightarrow> if symbol = [] then tbs else setdefault_append symbol trade tbs)
        trades d) =
   map fst d @
   rev (remdups (rev (filter (\<lambda>s. s \<notin> set (map fst d))
     (map (\<lambda>t. dict_get t ''Symbol'' []) (filter (\<lambda>t. dict_get t ''Symbol'' [] \<noteq> []) trades)))))"
proof (induction trades arbitrary: d)
  case Nil
  then show ?case by simp
next
  case (Cons t ts)
  show ?case
  proof (cases "dict_get t ''Symbol'' [] = []")
    case True
    then show ?thesis using Cons.IH [of d] by (auto simp: dict_get_def split: option.splits)
  next
    case False
    then obtain sym where e: "map_of t ''Symbol'' = Some sym" and ne: "sym \<noteq> []"
      by (auto simp: dict_get_def split: option.splits)
    have g: "dict_get t ''Symbol'' [] = sym" by (simp add: dict_get_def e)
    show ?thesis
    proof (cases "sym \<in> set (map fst d)")
      case True
      then show ?thesis
        using Cons.IH [of "setdefault_append sym t d"] ne
        by (simp add: e g keys_setdefault_append)
    next
      case False
      show ?thesis
        using Cons.IH [of "setdefault_append sym t d"] ne False
        by (simp add: e g keys_setdefault_append first_seen_snoc)
    qed
  qed
qed

text \<open>
  Claim C9. In the symbol grouping of \<^verbatim>\<open>process_trades\<close> (the same loop in both files) a
  trade record whose \<^verbatim>\<open>Symbol\<close> is absent or the empty string is left out: the grouping
  is the grouping of the other records alone, and it is all that the asset metrics and
  the reports are computed from. The keys are the symbols of the other records in the
  order of their first occurrence, and the group of a symbol is the list of the records
  with that symbol, in their order.
\<close>

theorem group_by_symbol_spec:
  "group_by_symbol trades =
     group_by_symbol (filter (\<lambda>t. dict_get t ''Symbol'' [] \<noteq> []) trades) \<and>
   map fst (group_by_symbol trades) =
     rev (remdups (rev (map (\<lambda>t. dict_get t ''Symbol'' [])
       (filter (\<lambda>t. dict_get t ''Symbol'' [] \<noteq> []) trades)))) \<and>
   (\<forall>s. map_of (group_by_symbol trades) s =
      (if s = [] \<or> filter (\<lambda>t. map_of t ''Symbol'' = Some s) trades = [] then None
       else Some (filter (\<lambda>t. map_of t ''Symbol'' = Some s) trades)))"
  unfolding group_by_symbol_def
  by (simp add: fold_group_skip fold_group_map_of fold_group_keys)

theorem group_by_symbol_spec_witness:
  "map fst (group_by_symbol
     [[(''Symbol'', ''B'')], [(''Quantity'', ''1'')], [(''Symbol'', [])], [(''Symbol'', ''A'')],
      [(''Symbol'', ''B''), (''Quantity'', ''2'')]]) = [''B'', ''A''] \<and>
   map_of (group_by_symbol
     [[(''Symbol'', ''B'')], [(''Quantity'', ''1'')], [(''Symbol'', [])], [(''Symbol'', ''A'')],
      [(''Symbol'', ''B''), (''Quantity'', ''2'')]]) ''B'' =
     Some [[(''Symbol'', ''B'')], [(''Symbol'', ''B''), (''Quantity'', ''2'')]] \<and>
   map_of (group_by_symbol
     [[(''Symbol'', ''B'')], [(''Quantity'', ''1'')], [(''Symbol'', [])], [(''Symbol'', ''A'')],
      [(''Symbol'', ''B''), (''Quantity'', ''2'')]]) [] = None"
proof -
  let ?ts = "[[(''Symbol'', ''B'')], [(''Quantity'', ''1'')], [(''Symbol'', [])],
      [(''Symbol'', ''A'')], [(''Symbol'', ''B''), (''Quantity'', ''2'')]] :: str_dict list"
  note spec_ts = group_by_symbol_spec [of ?ts]
  have keys: "map fst (group_by_symbol ?ts) = [''B'', ''A'']"
    using conjunct1 [OF conjunct2 [OF spec_ts]] by (simp add: dict_get_def)
  have grp: "map_of (group_by_symbol ?ts) ''B'' =
      Some [[(''Symbol'', ''B'')], [(''Symbol'', ''B''), (''Quantity'', ''2'')]]"
    using spec [OF conjunct2 [OF conjunct2 [OF spec_ts]], of "''B''"] by simp
  have none: "map_of (group_by_symbol ?ts) [] = None"
    using spec [OF conjunct2 [OF conjunct2 [OF spec_ts]], of "[]"] by simp
  show ?thesis using keys grp none by simp
qed

section \<open>The divisions are guarded\<close>

lemma fdiv_truthy: "truthy c \<Longrightarrow> \<exists>q. fdiv rnd x c = Inr q"
  by (cases x; cases c) (auto simp: truthy_def)

lemma pct_of_Inr: "\<exists>r. pct_of rnd pl c = Inr r"
proof (cases "truthy c")
  case True
  then obtain q where "fdiv rnd pl c = Inr q" using fdiv_truthy by blast
  then show ?thesis using True by (simp add: pct_of_def bind_err_def)
next
  case False
  then show ?thesis by (simp add: pct_of_def)
qed

lemma pct_of_truthy:
  "truthy c \<Longrightarrow> \<exists>q. fdiv rnd pl c = Inr q \<and> pct_of rnd pl c = Inr (Some (fmul rnd q (Fin 100)))"
proof -
  assume t: "truthy c"
  then obtain q where "fdiv rnd pl c = Inr q" using fdiv_truthy by blast
  then show ?thesis using t by (simp add: pct_of_def bind_err_def)
qed

lemma avg_Inr:
  "\<exists>a. (if truthy tq then fdiv rnd tc tq else Inr (Fin 0)) = Inr a"
  using fdiv_truthy [of tq rnd tc] by auto

lemma metrics_of_totals_Inr:
  "\<exists>m. metrics_of_totals rnd cp rs symb totals = Inr m"
proof -
  obtain tq tc where t: "totals = (tq, tc)" by (cases totals)
  obtain a where a: "(if truthy tq then fdiv rnd tc tq else Inr (Fin 0)) = Inr a"
    using avg_Inr by blast
  obtain r where r: "pct_of rnd (fsub rnd (fmul rnd tq (case cp symb of None \<Rightarrow> a | Some p \<Rightarrow> p)) tc) tc = Inr r"
    using pct_of_Inr by blast
  show ?thesis
    unfolding metrics_of_totals_def t
    by (simp add: a r bind_err_def Let_def split: prod.splits)
qed

lemma metrics_of_totals_fields:
  assumes "metrics_of_totals rnd cp rs symb (tq, tc) = Inr m"
  shows "total_quantity m = tq" and "total_cost m = tc"
    and "(if truthy tq then fdiv rnd tc tq else Inr (Fin 0)) = Inr (avg_purchase_price m)"
    and "current_price m = (case cp symb of None \<Rightarrow> avg_purchase_price m | Some p \<Rightarrow> p)"
    and "current_value m = fmul rnd tq (current_price m)"
    and "absolute_pl m = fsub rnd (current_value m) tc"
    and "pct_of rnd (absolute_pl m) tc = Inr (percentage_return m)"
    and "(realized_total m, unrealized_total m) = realized_totals rnd rs symb"
proof -
  obtain a where a: "(if truthy tq then fdiv rnd tc tq else Inr (Fin 0)) = Inr a"
    using avg_Inr by blast
  obtain r where r: "pct_of rnd (fsub rnd (fmul rnd tq (case cp symb of None \<Rightarrow> a | Some p \<Rightarrow> p)) tc) tc = Inr r"
    using pct_of_Inr by blast
  have m: "m = \<lparr>total_quantity = tq, total_cost = tc, avg_purchase_price = a,
      current_price = (case cp symb of None \<Rightarrow> a | Some p \<Rightarrow> p),
      current_value = fmul rnd tq (case cp symb of None \<Rightarrow> a | Some p \<Rightarrow> p),
      absolute_pl = fsub rnd (fmul rnd tq (case cp symb of None \<Rightarrow> a | Some p \<Rightarrow> p)) tc,
      percentage_return = r,
      realized_total = fst (realized_totals rnd rs symb),
      unrealized_total = snd (realized_totals rnd rs symb)\<rparr>"
    using assms unfolding metrics_of_totals_def
    by (simp add: a r bind_err_def Let_def split: prod.splits)
  show "total_quantity m = tq" by (simp add: m)
  show "total_cost m = tc" by (simp add: m)
  show "(if truthy tq then fdiv rnd tc tq else Inr (Fin 0)) = Inr (avg_purchase_price m)"
    using a by (simp add: m)
  show "current_price m = (case cp symb of None \<Rightarrow> avg_purchase_price m | Some p \<Rightarrow> p)"
    by (simp add: m split: option.splits)
  show "current_value m = fmul rnd tq (current_price m)" by (simp add: m)
  show "absolute_pl m = fsub rnd (current_value m) tc" by (simp add: m)
  show "pct_of rnd (absolute_pl m) tc = Inr (percentage_return m)" using r by (simp add: m)
  show "(realized_total m, unrealized_total m) = realized_totals rnd rs symb" by (simp add: m)
qed

lemma py_float_zero: "py_float rnd ''0'' = Some (rnd 0)"
  by (simp add: float_eval str_eval)

lemma realized_totals_missing:
  "rnd 0 = Fin 0 \<Longrightarrow> map_of rs symb = None \<Longrightarrow> realized_totals rnd rs symb = (Fin 0, Fin 0)"
  by (simp add: realized_totals_def dict_get_def py_float_zero)

lemma realized_totals_failure:
  "map_of rs symb = Some entry \<Longrightarrow>
   py_float rnd (dict_get entry ''Realized Total'' ''0'') = None \<or>
   py_float rnd (dict_get entry ''Unrealized Total'' ''0'') = None \<Longrightarrow>
   realized_totals rnd rs symb = (Fin 0, Fin 0)"
  by (auto simp: realized_totals_def dict_get_def split: option.splits)

lemma realized_totals_values:
  "map_of rs symb = Some entry \<Longrightarrow>
   py_float rnd (dict_get entry ''Realized Total'' ''0'') = Some r \<Longrightarrow>
   py_float rnd (dict_get entry ''Unrealized Total'' ''0'') = Some u \<Longrightarrow>
   realized_totals rnd rs symb = (r, u)"
  by (simp add: realized_totals_def dict_get_def)

section \<open>The performance totals\<close>

lemma round_double_zero: "round_double 0 = Fin 0"
  by (simp add: round_double_def)

lemma symbol_metrics_Inr: "\<exists>m. symbol_metrics rnd cp rs symb trades = Inr m"
  unfolding symbol_metrics_def by (rule metrics_of_totals_Inr)

lemma mexem_symbol_metrics_Inr: "\<exists>m. mexem_symbol_metrics rnd cp rs symb trades = Inr m"
  unfolding mexem_symbol_metrics_def by (rule metrics_of_totals_Inr)

lemma symbol_metrics_realized:
  "symbol_metrics rnd cp rs symb trades = Inr m \<Longrightarrow>
   (realized_total m, unrealized_total m) = realized_totals rnd rs symb"
  unfolding symbol_metrics_def
  by (cases "fold (add_trade rnd) trades (Fin 0, Fin 0)") (simp add: metrics_of_totals_fields(8))

lemma mexem_symbol_metrics_realized:
  "mexem_symbol_metrics rnd cp rs symb trades = Inr m \<Longrightarrow>
   (realized_total m, unrealized_total m) = realized_totals rnd rs symb"
  unfolding mexem_symbol_metrics_def
  by (cases "fold (mexem_add_trade rnd) trades (Fin 0, Fin 0)") (simp add: metrics_of_totals_fields(8))

text \<open>
  Claim C7. For every symbol the metrics are computed (no exception), in both files. A
  symbol with no entry in the performance summary has both totals 0. When the entry
  exists and the conversion of \<^verbatim>\<open>Realized Total\<close> or of \<^verbatim>\<open>Unrealized Total\<close> fails, both
  totals are 0, also the one whose conversion succeeds; the converted values are stored
  only when both conversions succeed. The hypothesis on the rounding, that 0 is a float,
  holds of \<open>round_double\<close> and of exact arithmetic.
\<close>

theorem performance_totals_default_together:
  assumes "rnd 0 = Fin 0"
  shows "\<exists>m m'. symbol_metrics rnd cp rs symb trades = Inr m \<and>
           mexem_symbol_metrics rnd cp rs symb trades = Inr m' \<and>
           realized_total m' = realized_total m \<and> unrealized_total m' = unrealized_total m \<and>
           (map_of rs symb = None \<longrightarrow> realized_total m = Fin 0 \<and> unrealized_total m = Fin 0) \<and>
           (\<forall>entry. map_of rs symb = Some entry \<and>
              (py_float rnd (dict_get entry ''Realized Total'' ''0'') = None \<or>
               py_float rnd (dict_get entry ''Unrealized Total'' ''0'') = None) \<longrightarrow>
              realized_total m = Fin 0 \<and> unrealized_total m = Fin 0) \<and>
           (\<forall>entry r u. map_of rs symb = Some entry \<and>
              py_float rnd (dict_get entry ''Realized Total'' ''0'') = Some r \<and>
              py_float rnd (dict_get entry ''Unrealized Total'' ''0'') = Some u \<longrightarrow>
              realized_total m = r \<and> unrealized_total m = u)"
proof -
  obtain m where m: "symbol_metrics rnd cp rs symb trades = Inr m"
    using symbol_metrics_Inr by blast
  obtain m' where m': "mexem_symbol_metrics rnd cp rs symb trades = Inr m'"
    using mexem_symbol_metrics_Inr by blast
  have r: "(realized_total m, unrealized_total m) = realized_totals rnd rs symb"
    using m by (rule symbol_metrics_realized)
  have r': "(realized_total m', unrealized_total m') = realized_totals rnd rs symb"
    using m' by (rule mexem_symbol_metrics_realized)
  have same: "realized_total m' = realized_total m \<and> unrealized_total m' = unrealized_total m"
    using r r' by (metis prod.inject)
  have missing: "map_of rs symb = None \<longrightarrow> realized_total m = Fin 0 \<and> unrealized_total m = Fin 0"
    using r assms realized_totals_missing [of rnd rs symb] by auto
  have failure: "\<forall>entry. map_of rs symb = Some entry \<and>
              (py_float rnd (dict_get entry ''Realized Total'' ''0'') = None \<or>
               py_float rnd (dict_get entry ''Unrealized Total'' ''0'') = None) \<longrightarrow>
              realized_total m = Fin 0 \<and> unrealized_total m = Fin 0"
    using r realized_totals_failure [of rs symb _ rnd] by (metis prod.inject)
  have vals: "\<forall>entry r u. map_of rs symb = Some entry \<and>
              py_float rnd (dict_get entry ''Realized Total'' ''0'') = Some r \<and>
              py_float rnd (dict_get entry ''Unrealized Total'' ''0'') = Some u \<longrightarrow>
              realized_total m = r \<and> unrealized_total m = u"
    using r realized_totals_values [of rs symb _ rnd] by (metis prod.inject)
  have "symbol_metrics rnd cp rs symb trades = Inr m \<and>
        mexem_symbol_metrics rnd cp rs symb trades = Inr m' \<and>
        realized_total m' = realized_total m \<and> unrealized_total m' = unrealized_total m \<and>
        (map_of rs symb = None \<longrightarrow> realized_total m = Fin 0 \<and> unrealized_total m = Fin 0) \<and>
        (\<forall>entry. map_of rs symb = Some entry \<and>
           (py_float rnd (dict_get entry ''Realized Total'' ''0'') = None \<or>
            py_float rnd (dict_get entry ''Unrealized Total'' ''0'') = None) \<longrightarrow>
           realized_total m = Fin 0 \<and> unrealized_total m = Fin 0) \<and>
        (\<forall>entry r u. map_of rs symb = Some entry \<and>
           py_float rnd (dict_get entry ''Realized Total'' ''0'') = Some r \<and>
           py_float rnd (dict_get entry ''Unrealized Total'' ''0'') = Some u \<longrightarrow>
           realized_total m = r \<and> unrealized_total m = u)"
    using m m' same missing failure vals by simp
  then show ?thesis by (intro exI)
qed


theorem performance_totals_default_together_witness:
  "round_double 0 = Fin 0 \<and>
   (\<exists>m. symbol_metrics round_double Map.empty
          [(''AAPL'', [(''Realized Total'', ''abc''), (''Unrealized Total'', ''5'')])] ''AAPL'' [] = Inr m \<and>
        realized_total m = Fin 0 \<and> unrealized_total m = Fin 0)"
proof -
  let ?entry = "[(''Realized Total'', ''abc''), (''Unrealized Total'', ''5'')]"
  let ?rs = "[(''AAPL'', ?entry)]"
  have z: "round_double 0 = Fin 0" by (rule round_double_zero)
  have e: "map_of ?rs ''AAPL'' = Some ?entry" by simp
  have f: "py_float round_double (dict_get ?entry ''Realized Total'' ''0'') = None"
    by (simp add: dict_get_def float_eval str_eval)
  obtain m where m: "symbol_metrics round_double Map.empty ?rs ''AAPL'' [] = Inr m"
    and d: "\<forall>entry. map_of ?rs ''AAPL'' = Some entry \<and>
              (py_float round_double (dict_get entry ''Realized Total'' ''0'') = None \<or>
               py_float round_double (dict_get entry ''Unrealized Total'' ''0'') = None) \<longrightarrow>
              realized_total m = Fin 0 \<and> unrealized_total m = Fin 0"
    using performance_totals_default_together [of round_double Map.empty ?rs "''AAPL''" "[]"] z
    by blast
  have "realized_total m = Fin 0 \<and> unrealized_total m = Fin 0"
    using spec [OF d, of ?entry] e f by blast
  then show ?thesis using z m by blast
qed

section \<open>Missing fields of a trade\<close>

lemma map_of_dict_set:
  "map_of (dict_set k v d) k' = (if k' = k then Some v else map_of d k')"
  by (induction d) auto

lemma dict_get_dict_set_absent:
  "map_of d k = None \<Longrightarrow> dict_get (dict_set k dflt d) k' dflt = dict_get d k' dflt"
  by (simp add: dict_get_def map_of_dict_set)

lemma dict_get_absent: "map_of d k = None \<Longrightarrow> dict_get d k dflt = dflt"
  by (simp add: dict_get_def)

lemma add_trade_absent:
  assumes "map_of trade k = None"
  shows "add_trade rnd (dict_set k ''0'' trade) totals = add_trade rnd trade totals"
  unfolding add_trade_def dict_get_dict_set_absent [OF assms] by (rule refl)

lemma mexem_add_trade_absent:
  assumes "map_of trade k = None"
  shows "mexem_add_trade rnd (dict_set k ''0'' trade) totals = mexem_add_trade rnd trade totals"
  unfolding mexem_add_trade_def dict_get_dict_set_absent [OF assms] by (rule refl)

text \<open>
  Claim C10. A trade record in which \<^verbatim>\<open>Quantity\<close>, \<^verbatim>\<open>T. Price\<close> or \<^verbatim>\<open>Comm/Fee\<close> is absent is
  not skipped by the aggregation: the absent field is read as the string \<^verbatim>\<open>0\<close>, which
  converts to the float 0, so the record is aggregated exactly as the same record with
  that field present and equal to \<^verbatim>\<open>0\<close>. In \<^verbatim>\<open>main.py\<close> the totals then grow by the
  quantity and by quantity times price minus commission, with 0 for the absent field.
  In \<^verbatim>\<open>mexem.py\<close>, which adds the quantity and quantity times price of the trades of
  positive quantity only and does not read \<^verbatim>\<open>Comm/Fee\<close>, an absent price counts as 0 and
  an absent quantity, being 0, adds nothing to either total.
\<close>

theorem missing_field_defaults_to_zero:
  assumes "rnd 0 = Fin 0"
  shows "py_float rnd ''0'' = Some (Fin 0) \<and>
    (\<forall>k. map_of trade k = None \<longrightarrow>
       add_trade rnd trade totals = add_trade rnd (dict_set k ''0'' trade) totals \<and>
       mexem_add_trade rnd trade totals = mexem_add_trade rnd (dict_set k ''0'' trade) totals) \<and>
    (map_of trade ''Quantity'' = None \<and>
     py_float rnd (dict_get trade ''T. Price'' ''0'') = Some p \<and>
     py_float rnd (dict_get trade ''Comm/Fee'' ''0'') = Some c \<longrightarrow>
       add_trade rnd trade (tq, tc) =
         (fadd rnd tq (Fin 0), fadd rnd tc (fsub rnd (fmul rnd (Fin 0) p) c))) \<and>
    (map_of trade ''T. Price'' = None \<and>
     py_float rnd (dict_get trade ''Quantity'' ''0'') = Some q \<and>
     py_float rnd (dict_get trade ''Comm/Fee'' ''0'') = Some c \<longrightarrow>
       add_trade rnd trade (tq, tc) =
         (fadd rnd tq q, fadd rnd tc (fsub rnd (fmul rnd q (Fin 0)) c))) \<and>
    (map_of trade ''Comm/Fee'' = None \<and>
     py_float rnd (dict_get trade ''Quantity'' ''0'') = Some q \<and>
     py_float rnd (dict_get trade ''T. Price'' ''0'') = Some p \<longrightarrow>
       add_trade rnd trade (tq, tc) =
         (fadd rnd tq q, fadd rnd tc (fsub rnd (fmul rnd q p) (Fin 0)))) \<and>
    (map_of trade ''T. Price'' = None \<and>
     py_float rnd (dict_get trade ''Quantity'' ''0'') = Some q \<and> flt (Fin 0) q \<longrightarrow>
       mexem_add_trade rnd trade (tq, tc) = (fadd rnd tq q, fadd rnd tc (fmul rnd q (Fin 0)))) \<and>
    (map_of trade ''Quantity'' = None \<longrightarrow> mexem_add_trade rnd trade (tq, tc) = (tq, tc))"
proof -
  have z: "py_float rnd ''0'' = Some (Fin 0)"
    using assms by (simp add: py_float_zero)
  have same: "\<forall>k. map_of trade k = None \<longrightarrow>
       add_trade rnd trade totals = add_trade rnd (dict_set k ''0'' trade) totals \<and>
       mexem_add_trade rnd trade totals = mexem_add_trade rnd (dict_set k ''0'' trade) totals"
    by (simp add: add_trade_absent mexem_add_trade_absent)
  have qa: "map_of trade ''Quantity'' = None \<and>
     py_float rnd (dict_get trade ''T. Price'' ''0'') = Some p \<and>
     py_float rnd (dict_get trade ''Comm/Fee'' ''0'') = Some c \<longrightarrow>
       add_trade rnd trade (tq, tc) =
         (fadd rnd tq (Fin 0), fadd rnd tc (fsub rnd (fmul rnd (Fin 0) p) c))"
    by (simp add: add_trade_def dict_get_absent z)
  have pa: "map_of trade ''T. Price'' = None \<and>
     py_float rnd (dict_get trade ''Quantity'' ''0'') = Some q \<and>
     py_float rnd (dict_get trade ''Comm/Fee'' ''0'') = Some c \<longrightarrow>
       add_trade rnd trade (tq, tc) =
         (fadd rnd tq q, fadd rnd tc (fsub rnd (fmul rnd q (Fin 0)) c))"
    by (simp add: add_trade_def dict_get_absent z)
  have ca: "map_of trade ''Comm/Fee'' = None \<and>
     py_float rnd (dict_get trade ''Quantity'' ''0'') = Some q \<and>
     py_float rnd (dict_get trade ''T. Price'' ''0'') = Some p \<longrightarrow>
       add_trade rnd trade (tq, tc) =
         (fadd rnd tq q, fadd rnd tc (fsub rnd (fmul rnd q p) (Fin 0)))"
    by (simp add: add_trade_def dict_get_absent z)
  have mp: "map_of trade ''T. Price'' = None \<and>
     py_float rnd (dict_get trade ''Quantity'' ''0'') = Some q \<and> flt (Fin 0) q \<longrightarrow>
       mexem_add_trade rnd trade (tq, tc) = (fadd rnd tq q, fadd rnd tc (fmul rnd q (Fin 0)))"
    by (simp add: mexem_add_trade_def dict_get_absent z)
  have mq: "map_of trade ''Quantity'' = None \<longrightarrow> mexem_add_trade rnd trade (tq, tc) = (tq, tc)"
    by (simp add: mexem_add_trade_def dict_get_absent z)
  show ?thesis using z same qa pa ca mp mq by simp
qed

theorem missing_field_defaults_to_zero_witness:
  "round_double 0 = Fin 0 \<and>
   map_of [(''Symbol'', ''AAPL''), (''Quantity'', ''10''), (''T. Price'', ''100'')] ''Comm/Fee'' = None \<and>
   add_trade round_double [(''Symbol'', ''AAPL''), (''Quantity'', ''10''), (''T. Price'', ''100'')]
     (Fin 0, Fin 0) = (Fin 10, Fin 1000)"
proof -
  let ?t = "[(''Symbol'', ''AAPL''), (''Quantity'', ''10''), (''T. Price'', ''100'')]"
  have z: "round_double 0 = Fin 0" by (rule round_double_zero)
  have a: "map_of ?t ''Comm/Fee'' = None" by simp
  have q: "py_float round_double (dict_get ?t ''Quantity'' ''0'') = Some (Fin 10)"
    by (simp add: dict_get_def float_eval str_eval rd_eval)
  have p: "py_float round_double (dict_get ?t ''T. Price'' ''0'') = Some (Fin 100)"
    by (simp add: dict_get_def float_eval str_eval rd_eval)
  have "add_trade round_double ?t (Fin 0, Fin 0) =
      (fadd round_double (Fin 0) (Fin 10),
       fadd round_double (Fin 0) (fsub round_double (fmul round_double (Fin 10) (Fin 100)) (Fin 0)))"
    using missing_field_defaults_to_zero
      [of round_double ?t "(Fin 0, Fin 0)" "Fin 100" "Fin 0" "Fin 0" "Fin 0" "Fin 10"] z a q p
    by blast
  then have "add_trade round_double ?t (Fin 0, Fin 0) = (Fin 10, Fin 1000)"
    by (simp add: fsub_def rd_eval)
  then show ?thesis using z a by blast
qed

section \<open>Transaction metrics\<close>

lemma compute_transaction_metrics_commission:
  assumes "py_float rnd (dict_get trade ''Quantity'' ''0'') = Some q"
    and "py_float rnd (dict_get trade ''T. Price'' ''0'') = Some p"
  shows "compute_transaction_metrics rnd trade cp =
     (case py_float rnd (dict_get trade ''Comm/Fee'' ''0'') of
        None \<Rightarrow> Inl ValueError
      | Some comm \<Rightarrow>
          Inr (Some (mexem_transaction_metrics.extend
                 (the (projr (mexem_compute_transaction_metrics rnd trade cp)))
                 (transaction_metrics.fields comm))))"
proof -
  obtain r where r: "pct_of rnd (fsub rnd (fmul rnd q cp) (fmul rnd q p)) (fmul rnd q p) = Inr r"
    using pct_of_Inr by blast
  show ?thesis
    unfolding compute_transaction_metrics_def mexem_compute_transaction_metrics_def
    by (simp add: assms r bind_err_def Let_def mexem_transaction_metrics.defs
        transaction_metrics.defs split: option.splits)
qed

lemma compute_transaction_metrics_raises:
  assumes "py_float rnd (dict_get trade ''Quantity'' ''0'') = Some q"
    and "py_float rnd (dict_get trade ''T. Price'' ''0'') = Some p"
    and "py_float rnd (dict_get trade ''Comm/Fee'' ''0'') = None"
  shows "compute_transaction_metrics rnd trade cp = Inl ValueError"
  by (simp add: compute_transaction_metrics_commission [OF assms(1,2)] assms(3))

lemma mexem_sign_flip_law:
  assumes "py_float rnd (dict_get trade ''Quantity'' ''0'') = Some q"
    and "py_float rnd (dict_get trade ''T. Price'' ''0'') = Some p"
    and "flt q (Fin 0)" and "fmul rnd q p \<noteq> Fin 0"
  shows "\<exists>m quot. mexem_compute_transaction_metrics rnd trade cp = Inr (Some m) \<and>
           quantity m = q \<and> cost m = fmul rnd q p \<and>
           mexem_transaction_metrics.current_value m = fmul rnd q cp \<and>
           fdiv rnd (fsub rnd (mexem_transaction_metrics.current_value m) (cost m)) (cost m) =
             Inr quot \<and>
           mexem_transaction_metrics.percentage_return m = Some (fneg (fmul rnd quot (Fin 100)))"
proof -
  have t: "truthy (fmul rnd q p)" using assms(4) by (simp add: truthy_def)
  obtain quot where quot: "fdiv rnd (fsub rnd (fmul rnd q cp) (fmul rnd q p)) (fmul rnd q p) = Inr quot"
    and pct: "pct_of rnd (fsub rnd (fmul rnd q cp) (fmul rnd q p)) (fmul rnd q p) =
               Inr (Some (fmul rnd quot (Fin 100)))"
    using pct_of_truthy [OF t] by blast
  show ?thesis
    unfolding mexem_compute_transaction_metrics_def
    by (simp add: assms(1,2,3) quot pct bind_err_def Let_def)
qed

lemma sign_flip_law:
  assumes "py_float rnd (dict_get trade ''Quantity'' ''0'') = Some q"
    and "py_float rnd (dict_get trade ''T. Price'' ''0'') = Some p"
    and "py_float rnd (dict_get trade ''Comm/Fee'' ''0'') = Some comm"
    and "flt q (Fin 0)" and "fmul rnd q p \<noteq> Fin 0"
  shows "\<exists>m quot. compute_transaction_metrics rnd trade cp = Inr (Some m) \<and>
           quantity m = q \<and> cost m = fmul rnd q p \<and>
           mexem_transaction_metrics.current_value m = fmul rnd q cp \<and>
           commission m = comm \<and>
           fdiv rnd (fsub rnd (mexem_transaction_metrics.current_value m) (cost m)) (cost m) =
             Inr quot \<and>
           mexem_transaction_metrics.percentage_return m = Some (fneg (fmul rnd quot (Fin 100)))"
proof -
  have t: "truthy (fmul rnd q p)" using assms(5) by (simp add: truthy_def)
  obtain quot where quot: "fdiv rnd (fsub rnd (fmul rnd q cp) (fmul rnd q p)) (fmul rnd q p) = Inr quot"
    and pct: "pct_of rnd (fsub rnd (fmul rnd q cp) (fmul rnd q p)) (fmul rnd q p) =
               Inr (Some (fmul rnd quot (Fin 100)))"
    using pct_of_truthy [OF t] by blast
  show ?thesis
    unfolding compute_transaction_metrics_def
    by (simp add: assms(1,2,3,4) quot pct bind_err_def Let_def)
qed

text \<open>
  Claim C2. The conversion of \<^verbatim>\<open>Comm/Fee\<close> in \<^verbatim>\<open>compute_transaction_metrics\<close> of \<^verbatim>\<open>main.py\<close>
  is outside the \<^verbatim>\<open>try\<close> that guards \<^verbatim>\<open>Quantity\<close> and \<^verbatim>\<open>T. Price\<close>: on a trade whose
  \<^verbatim>\<open>Comm/Fee\<close> is \<^verbatim>\<open>abc\<close> the function returns no result with commission 0, it raises
  \<^verbatim>\<open>ValueError\<close>.
\<close>

theorem commission_not_numeric_raises:
  "compute_transaction_metrics round_double
     [(''Quantity'', ''1''), (''T. Price'', ''2''), (''Comm/Fee'', ''abc'')] (Fin 3) =
   Inl ValueError"
proof -
  let ?t = "[(''Quantity'', ''1''), (''T. Price'', ''2''), (''Comm/Fee'', ''abc'')]"
  have q: "py_float round_double (dict_get ?t ''Quantity'' ''0'') = Some (Fin 1)"
    by (simp add: dict_get_def float_eval str_eval rd_eval)
  have p: "py_float round_double (dict_get ?t ''T. Price'' ''0'') = Some (Fin 2)"
    by (simp add: dict_get_def float_eval str_eval rd_eval)
  have c: "py_float round_double (dict_get ?t ''Comm/Fee'' ''0'') = None"
    by (simp add: dict_get_def float_eval str_eval)
  show ?thesis by (rule compute_transaction_metrics_raises [OF q p c])
qed

text \<open>
  Claim C6. On the sell trade of quantity \<^verbatim>\<open>-1\<close> at price \<^verbatim>\<open>2\<close> whose \<^verbatim>\<open>Comm/Fee\<close> cell is
  empty, with current price 3, \<^verbatim>\<open>compute_transaction_metrics\<close> of \<^verbatim>\<open>main.py\<close> returns no
  percentage return, it raises \<^verbatim>\<open>ValueError\<close>; the function of \<^verbatim>\<open>mexem.py\<close> returns the
  negated percentage, \<open>- ((-3 - -2) / -2 * 100) = -50\<close>.
\<close>

theorem sell_with_empty_commission_raises:
  "compute_transaction_metrics round_double
     [(''Quantity'', ''-1''), (''T. Price'', ''2''), (''Comm/Fee'', '''')] (Fin 3) =
   Inl ValueError \<and>
   mexem_compute_transaction_metrics round_double
     [(''Quantity'', ''-1''), (''T. Price'', ''2''), (''Comm/Fee'', '''')] (Fin 3) =
   Inr (Some \<lparr>quantity = Fin (- 1), trade_price = Fin 2, cost = Fin (- 2),
              mexem_transaction_metrics.current_value = Fin (- 3), profit_loss = Fin (- 1),
              mexem_transaction_metrics.percentage_return = Some (Fin (- 50))\<rparr>)"
proof -
  let ?t = "[(''Quantity'', ''-1''), (''T. Price'', ''2''), (''Comm/Fee'', '''')]"
  have q: "py_float round_double (dict_get ?t ''Quantity'' ''0'') = Some (Fin (- 1))"
    by (simp add: dict_get_def float_eval str_eval rd_eval)
  have p: "py_float round_double (dict_get ?t ''T. Price'' ''0'') = Some (Fin 2)"
    by (simp add: dict_get_def float_eval str_eval rd_eval)
  have c: "py_float round_double (dict_get ?t ''Comm/Fee'' ''0'') = None"
    by (simp add: dict_get_def float_eval str_eval)
  have main: "compute_transaction_metrics round_double ?t (Fin 3) = Inl ValueError"
    by (rule compute_transaction_metrics_raises [OF q p c])
  have mexem: "mexem_compute_transaction_metrics round_double ?t (Fin 3) =
      Inr (Some \<lparr>quantity = Fin (- 1), trade_price = Fin 2, cost = Fin (- 2),
              mexem_transaction_metrics.current_value = Fin (- 3), profit_loss = Fin (- 1),
              mexem_transaction_metrics.percentage_return = Some (Fin (- 50))\<rparr>)"
    unfolding mexem_compute_transaction_metrics_def
    by (simp add: q p pct_of_def truthy_def fsub_def bind_err_def rd_eval)
  show ?thesis using main mexem by simp
qed

section \<open>Exceptions of the pipeline\<close>

lemma fold_err_Inr:
  assumes "\<And>x s. \<exists>s'. f x s = Inr s'"
  shows "\<exists>s'. fold_err f xs s = Inr s'"
proof (induction xs arbitrary: s)
  case Nil
  then show ?case by simp
next
  case (Cons x xs)
  obtain s1 where "f x s = Inr s1" using assms by blast
  then show ?case using Cons.IH [of s1] by (simp add: bind_err_def)
qed

text \<open>The aggregation raises nothing: both divisions are guarded.\<close>

lemma compute_asset_metrics_Inr:
  "\<exists>metrics. compute_asset_metrics rnd cp tbs rs = Inr metrics"
  unfolding compute_asset_metrics_def
proof (rule fold_err_Inr)
  fix x :: "string \<times> str_dict list" and s :: "(string \<times> assetmetrics) list"
  obtain symbol trades where x: "x = (symbol, trades)" by (cases x)
  obtain m where "symbol_metrics rnd cp rs symbol trades = Inr m"
    using symbol_metrics_Inr by blast
  then show "\<exists>s'. (case x of (symbol, trades) \<Rightarrow> \<lambda>metrics.
                  bind_err (symbol_metrics rnd cp rs symbol trades)
                    (\<lambda>m. Inr (dict_set symbol m metrics))) s = Inr s'"
    by (simp add: x bind_err_def)
qed

lemma mexem_compute_asset_metrics_Inr:
  "\<exists>metrics. mexem_compute_asset_metrics rnd cp tbs rs = Inr metrics"
  unfolding mexem_compute_asset_metrics_def
proof (rule fold_err_Inr)
  fix x :: "string \<times> str_dict list" and s :: "(string \<times> assetmetrics) list"
  obtain symbol trades where x: "x = (symbol, trades)" by (cases x)
  obtain m where "mexem_symbol_metrics rnd cp rs symbol trades = Inr m"
    using mexem_symbol_metrics_Inr by blast
  then show "\<exists>s'. (case x of (symbol, trades) \<Rightarrow> \<lambda>metrics.
                  bind_err (mexem_symbol_metrics rnd cp rs symbol trades)
                    (\<lambda>m. Inr (dict_set symbol m metrics))) s = Inr s'"
    by (simp add: x bind_err_def)
qed

text \<open>A row of fewer than three cells is skipped by \<^verbatim>\<open>process_trades\<close>, in both files.\<close>

lemma process_trades_row_short:
  "length row < 3 \<Longrightarrow> process_trades_row row st = st"
  by (cases st) (simp add: process_trades_row_def)

lemma mexem_process_trades_row_short:
  "length row < 3 \<Longrightarrow> mexem_process_trades_row row st = st"
  by (cases st) (simp add: mexem_process_trades_row_def)

text \<open>The other two sections have no such test.\<close>

lemma process_realized_summary_row_short:
  "length row < 2 \<Longrightarrow> process_realized_summary_row row st = Inl IndexError"
  by (cases st; cases row; cases "tl row") (simp_all add: process_realized_summary_row_def)

lemma process_deposits_row_short:
  "length row < 2 \<Longrightarrow> process_deposits_row row st = Inl IndexError"
  by (cases st; cases row; cases "tl row") (simp_all add: process_deposits_row_def)

text \<open>
  Claim C3. A file whose only line is the section name
  \<^verbatim>\<open>Realized & Unrealized Performance Summary\<close> gives one row of one cell in that
  section; \<^verbatim>\<open>process_realized_summary\<close> reads \<^verbatim>\<open>row[1]\<close> of it, and \<^verbatim>\<open>load_and_process\<close>
  ends with \<^verbatim>\<open>IndexError\<close> in both files, where the same row in the section \<^verbatim>\<open>Trades\<close> is
  skipped and the pipeline returns the empty metrics.
\<close>

theorem section_name_only_row_raises:
  "load_and_process round_double Map.empty
     [[''Realized & Unrealized Performance Summary'']] = Inl IndexError \<and>
   mexem_load_and_process round_double Map.empty
     [[''Realized & Unrealized Performance Summary'']] = Inl IndexError \<and>
   load_and_process round_double Map.empty [[''Trades'']] =
     Inr \<lparr>sections = [(''Trades'', [[''Trades'']])], trades_by_symbol = [],
          realized_summary = [], deposits = [], asset_metrics = []\<rparr>"
proof -
  have s: "parse_csv_sections [[''Realized & Unrealized Performance Summary'']] =
      [(''Realized & Unrealized Performance Summary'',
        [[''Realized & Unrealized Performance Summary'']])]"
    by (simp add: parse_csv_sections_def str_eval)
  have r: "process_realized_summary [[''Realized & Unrealized Performance Summary'']] =
      Inl IndexError"
    by (simp add: process_realized_summary_def process_realized_summary_row_def bind_err_def)
  have r': "mexem_process_realized_summary [[''Realized & Unrealized Performance Summary'']] =
      Inl IndexError"
    by (simp add: mexem_process_realized_summary_def mexem_process_realized_summary_row_def
        bind_err_def)
  have a: "load_and_process round_double Map.empty
      [[''Realized & Unrealized Performance Summary'']] = Inl IndexError"
    by (simp add: load_and_process_def s r bind_err_def)
  have b: "mexem_load_and_process round_double Map.empty
      [[''Realized & Unrealized Performance Summary'']] = Inl IndexError"
    by (simp add: mexem_load_and_process_def s r' bind_err_def)
  have t: "parse_csv_sections [[''Trades'']] = [(''Trades'', [[''Trades'']])]"
    by (simp add: parse_csv_sections_def str_eval)
  have p: "process_trades [[''Trades'']] = []"
    by (simp add: process_trades_def process_trades_row_def group_by_symbol_def)
  have c: "load_and_process round_double Map.empty [[''Trades'']] =
     Inr \<lparr>sections = [(''Trades'', [[''Trades'']])], trades_by_symbol = [],
          realized_summary = [], deposits = [], asset_metrics = []\<rparr>"
    by (simp add: load_and_process_def t p compute_asset_metrics_def bind_err_def)
  show ?thesis using a b c by simp
qed

section \<open>The scenario of two purchases\<close>

lemma scenario_sections:
  "parse_csv_sections
     [[''Trades'', ''Header'', ''Symbol'', ''Quantity'', ''T. Price'', ''Comm/Fee''],
      [''Trades'', ''Data'', ''AAPL'', ''10'', ''100'', ''1''],
      [''Trades'', ''Data'', ''AAPL'', ''5'', ''110'', ''0.5'']] =
   [(''Trades'',
     [[''Trades'', ''Header'', ''Symbol'', ''Quantity'', ''T. Price'', ''Comm/Fee''],
      [''Trades'', ''Data'', ''AAPL'', ''10'', ''100'', ''1''],
      [''Trades'', ''Data'', ''AAPL'', ''5'', ''110'', ''0.5'']])]"
  by (simp add: parse_csv_sections_def str_eval)

lemma scenario_trades:
  "process_trades
     [[''Trades'', ''Header'', ''Symbol'', ''Quantity'', ''T. Price'', ''Comm/Fee''],
      [''Trades'', ''Data'', ''AAPL'', ''10'', ''100'', ''1''],
      [''Trades'', ''Data'', ''AAPL'', ''5'', ''110'', ''0.5'']] =
   [(''AAPL'',
     [[(''Symbol'', ''AAPL''), (''Quantity'', ''10''), (''T. Price'', ''100''), (''Comm/Fee'', ''1'')],
      [(''Symbol'', ''AAPL''), (''Quantity'', ''5''), (''T. Price'', ''110''),
       (''Comm/Fee'', ''0.5'')]])]"
  by (simp add: process_trades_def process_trades_row_def group_by_symbol_def make_record_def
      str_eval)

lemma mexem_scenario_trades:
  "mexem_process_trades
     [[''Trades'', ''Header'', ''Symbol'', ''Quantity'', ''T. Price'', ''Comm/Fee''],
      [''Trades'', ''Data'', ''AAPL'', ''10'', ''100'', ''1''],
      [''Trades'', ''Data'', ''AAPL'', ''5'', ''110'', ''0.5'']] =
   [(''AAPL'',
     [[(''Symbol'', ''AAPL''), (''Quantity'', ''10''), (''T. Price'', ''100''), (''Comm/Fee'', ''1'')],
      [(''Symbol'', ''AAPL''), (''Quantity'', ''5''), (''T. Price'', ''110''),
       (''Comm/Fee'', ''0.5'')]])]"
  by (simp add: mexem_process_trades_def mexem_process_trades_row_def group_by_symbol_def
      make_record_def str_eval)

lemma scenario_floats:
  "py_float round_double ''10'' = Some (Fin 10)"
  "py_float round_double ''100'' = Some (Fin 100)"
  "py_float round_double ''1'' = Some (Fin 1)"
  "py_float round_double ''5'' = Some (Fin 5)"
  "py_float round_double ''110'' = Some (Fin 110)"
  "py_float round_double ''0.5'' = Some (Fin (1 / 2))"
  "py_float round_double ''0'' = Some (Fin 0)"
  by (simp_all add: float_eval str_eval rd_eval)

lemma scenario_totals:
  "fold (add_trade round_double)
     [[(''Symbol'', ''AAPL''), (''Quantity'', ''10''), (''T. Price'', ''100''), (''Comm/Fee'', ''1'')],
      [(''Symbol'', ''AAPL''), (''Quantity'', ''5''), (''T. Price'', ''110''),
       (''Comm/Fee'', ''0.5'')]] (Fin 0, Fin 0) = (Fin 15, Fin (3097 / 2))"
  by (simp add: add_trade_def dict_get_def scenario_floats fsub_def rd_eval)

lemma mexem_scenario_totals:
  "fold (mexem_add_trade round_double)
     [[(''Symbol'', ''AAPL''), (''Quantity'', ''10''), (''T. Price'', ''100''), (''Comm/Fee'', ''1'')],
      [(''Symbol'', ''AAPL''), (''Quantity'', ''5''), (''T. Price'', ''110''),
       (''Comm/Fee'', ''0.5'')]] (Fin 0, Fin 0) = (Fin 15, Fin 1550)"
  by (simp add: mexem_add_trade_def dict_get_def scenario_floats rd_eval)

lemma scenario_metrics:
  "metrics_of_totals round_double Map.empty [] ''AAPL'' (Fin 15, Fin (3097 / 2)) =
   Inr \<lparr>total_quantity = Fin 15, total_cost = Fin (3097 / 2),
        avg_purchase_price = Fin (7264400023940847 / 70368744177664),
        current_price = Fin (7264400023940847 / 70368744177664),
        current_value = Fin (3097 / 2), absolute_pl = Fin 0,
        percentage_return = Some (Fin 0), realized_total = Fin 0, unrealized_total = Fin 0\<rparr>"
proof -
  have r: "realized_totals round_double [] ''AAPL'' = (Fin 0, Fin 0)"
    by (simp add: realized_totals_missing round_double_zero)
  show ?thesis
    unfolding metrics_of_totals_def
    by (simp add: truthy_def bind_err_def pct_of_def fsub_def r rd_eval)
qed

lemma mexem_scenario_metrics:
  "metrics_of_totals round_double Map.empty [] ''AAPL'' (Fin 15, Fin 1550) =
   Inr \<lparr>total_quantity = Fin 15, total_cost = Fin 1550,
        avg_purchase_price = Fin (7271436898358613 / 70368744177664),
        current_price = Fin (7271436898358613 / 70368744177664),
        current_value = Fin 1550, absolute_pl = Fin 0,
        percentage_return = Some (Fin 0), realized_total = Fin 0, unrealized_total = Fin 0\<rparr>"
proof -
  have r: "realized_totals round_double [] ''AAPL'' = (Fin 0, Fin 0)"
    by (simp add: realized_totals_missing round_double_zero)
  show ?thesis
    unfolding metrics_of_totals_def
    by (simp add: truthy_def bind_err_def pct_of_def fsub_def r rd_eval)
qed

lemma scenario_symbol:
  "symbol_metrics round_double Map.empty [] ''AAPL''
     [[(''Symbol'', ''AAPL''), (''Quantity'', ''10''), (''T. Price'', ''100''), (''Comm/Fee'', ''1'')],
      [(''Symbol'', ''AAPL''), (''Quantity'', ''5''), (''T. Price'', ''110''),
       (''Comm/Fee'', ''0.5'')]] =
   Inr \<lparr>total_quantity = Fin 15, total_cost = Fin (3097 / 2),
        avg_purchase_price = Fin (7264400023940847 / 70368744177664),
        current_price = Fin (7264400023940847 / 70368744177664),
        current_value = Fin (3097 / 2), absolute_pl = Fin 0,
        percentage_return = Some (Fin 0), realized_total = Fin 0, unrealized_total = Fin 0\<rparr>"
  by (simp only: symbol_metrics_def scenario_totals scenario_metrics)

lemma mexem_scenario_symbol:
  "mexem_symbol_metrics round_double Map.empty [] ''AAPL''
     [[(''Symbol'', ''AAPL''), (''Quantity'', ''10''), (''T. Price'', ''100''), (''Comm/Fee'', ''1'')],
      [(''Symbol'', ''AAPL''), (''Quantity'', ''5''), (''T. Price'', ''110''),
       (''Comm/Fee'', ''0.5'')]] =
   Inr \<lparr>total_quantity = Fin 15, total_cost = Fin 1550,
        avg_purchase_price = Fin (7271436898358613 / 70368744177664),
        current_price = Fin (7271436898358613 / 70368744177664),
        current_value = Fin 1550, absolute_pl = Fin 0,
        percentage_return = Some (Fin 0), realized_total = Fin 0, unrealized_total = Fin 0\<rparr>"
  by (simp only: mexem_symbol_metrics_def mexem_scenario_totals mexem_scenario_metrics)

lemma scenario_compute:
  "compute_asset_metrics round_double Map.empty
     [(''AAPL'',
     [[(''Symbol'', ''AAPL''), (''Quantity'', ''10''), (''T. Price'', ''100''), (''Comm/Fee'', ''1'')],
      [(''Symbol'', ''AAPL''), (''Quantity'', ''5''), (''T. Price'', ''110''),
       (''Comm/Fee'', ''0.5'')]])] [] =
   Inr [(''AAPL'',
     \<lparr>total_quantity = Fin 15, total_cost = Fin (3097 / 2),
        avg_purchase_price = Fin (7264400023940847 / 70368744177664),
        current_price = Fin (7264400023940847 / 70368744177664),
        current_value = Fin (3097 / 2), absolute_pl = Fin 0,
        percentage_return = Some (Fin 0), realized_total = Fin 0, unrealized_total = Fin 0\<rparr>)]"
  by (simp add: compute_asset_metrics_def scenario_symbol bind_err_def)

lemma mexem_scenario_compute:
  "mexem_compute_asset_metrics round_double Map.empty
     [(''AAPL'',
     [[(''Symbol'', ''AAPL''), (''Quantity'', ''10''), (''T. Price'', ''100''), (''Comm/Fee'', ''1'')],
      [(''Symbol'', ''AAPL''), (''Quantity'', ''5''), (''T. Price'', ''110''),
       (''Comm/Fee'', ''0.5'')]])] [] =
   Inr [(''AAPL'',
     \<lparr>total_quantity = Fin 15, total_cost = Fin 1550,
        avg_purchase_price = Fin (7271436898358613 / 70368744177664),
        current_price = Fin (7271436898358613 / 70368744177664),
        current_value = Fin 1550, absolute_pl = Fin 0,
        percentage_return = Some (Fin 0), realized_total = Fin 0, unrealized_total = Fin 0\<rparr>)]"
  by (simp add: mexem_compute_asset_metrics_def mexem_scenario_symbol bind_err_def)

lemma scenario_pipeline:
  "map_sum id asset_metrics (load_and_process round_double Map.empty
     [[''Trades'', ''Header'', ''Symbol'', ''Quantity'', ''T. Price'', ''Comm/Fee''],
      [''Trades'', ''Data'', ''AAPL'', ''10'', ''100'', ''1''],
      [''Trades'', ''Data'', ''AAPL'', ''5'', ''110'', ''0.5'']]) =
   Inr [(''AAPL'',
     \<lparr>total_quantity = Fin 15, total_cost = Fin (3097 / 2),
        avg_purchase_price = Fin (7264400023940847 / 70368744177664),
        current_price = Fin (7264400023940847 / 70368744177664),
        current_value = Fin (3097 / 2), absolute_pl = Fin 0,
        percentage_return = Some (Fin 0), realized_total = Fin 0, unrealized_total = Fin 0\<rparr>)]"
  by (simp add: load_and_process_def scenario_sections scenario_trades scenario_compute
      bind_err_def)

lemma mexem_scenario_pipeline:
  "map_sum id asset_metrics (mexem_load_and_process round_double Map.empty
     [[''Trades'', ''Header'', ''Symbol'', ''Quantity'', ''T. Price'', ''Comm/Fee''],
      [''Trades'', ''Data'', ''AAPL'', ''10'', ''100'', ''1''],
      [''Trades'', ''Data'', ''AAPL'', ''5'', ''110'', ''0.5'']]) =
   Inr [(''AAPL'',
     \<lparr>total_quantity = Fin 15, total_cost = Fin 1550,
        avg_purchase_price = Fin (7271436898358613 / 70368744177664),
        current_price = Fin (7271436898358613 / 70368744177664),
        current_value = Fin 1550, absolute_pl = Fin 0,
        percentage_return = Some (Fin 0), realized_total = Fin 0, unrealized_total = Fin 0\<rparr>)]"
  by (simp add: mexem_load_and_process_def scenario_sections mexem_scenario_trades
      mexem_scenario_compute bind_err_def)

text \<open>
  Claim C1, as stated, fails on \<^verbatim>\<open>mexem.py\<close>: its aggregation subtracts no commission, and
  the total cost of the scenario is \<open>10 * 100 + 5 * 110 = 1550\<close>, not 1548.5.
\<close>

theorem scenario_mexem_total_cost:
  "map_sum id (map (map_prod id total_cost) \<circ> asset_metrics)
     (mexem_load_and_process round_double Map.empty
     [[''Trades'', ''Header'', ''Symbol'', ''Quantity'', ''T. Price'', ''Comm/Fee''],
      [''Trades'', ''Data'', ''AAPL'', ''10'', ''100'', ''1''],
      [''Trades'', ''Data'', ''AAPL'', ''5'', ''110'', ''0.5'']]) =
   Inr [(''AAPL'', Fin 1550)] \<and> Fin 1550 \<noteq> Fin (3097 / 2)"
  using mexem_scenario_pipeline
  by (cases "mexem_load_and_process round_double Map.empty
     [[''Trades'', ''Header'', ''Symbol'', ''Quantity'', ''T. Price'', ''Comm/Fee''],
      [''Trades'', ''Data'', ''AAPL'', ''10'', ''100'', ''1''],
      [''Trades'', ''Data'', ''AAPL'', ''5'', ''110'', ''0.5'']]") auto

text \<open>
  Claim C1, amended. For the file whose \<^verbatim>\<open>Trades\<close> section has the header
  \<^verbatim>\<open>Symbol, Quantity, T. Price, Comm/Fee\<close> and the two data rows of AAPL (10 at 100 with
  commission 1, 5 at 110 with commission 0.5), and no price given on the command line:
  \<^verbatim>\<open>main.py\<close> computes total quantity 15, total cost 1548.5 and the average purchase
  price \<open>1548.5 / 15\<close> (the float division); \<^verbatim>\<open>mexem.py\<close>, which subtracts no commission,
  computes total quantity 15, total cost 1550 and the average \<open>1550 / 15\<close>.
\<close>

theorem scenario_asset_metrics:
  "map_sum id asset_metrics (load_and_process round_double Map.empty
     [[''Trades'', ''Header'', ''Symbol'', ''Quantity'', ''T. Price'', ''Comm/Fee''],
      [''Trades'', ''Data'', ''AAPL'', ''10'', ''100'', ''1''],
      [''Trades'', ''Data'', ''AAPL'', ''5'', ''110'', ''0.5'']]) =
   Inr [(''AAPL'',
     \<lparr>total_quantity = Fin 15, total_cost = Fin (3097 / 2),
        avg_purchase_price = Fin (7264400023940847 / 70368744177664),
        current_price = Fin (7264400023940847 / 70368744177664),
        current_value = Fin (3097 / 2), absolute_pl = Fin 0,
        percentage_return = Some (Fin 0), realized_total = Fin 0, unrealized_total = Fin 0\<rparr>)] \<and>
   fdiv round_double (Fin (3097 / 2)) (Fin 15) = Inr (Fin (7264400023940847 / 70368744177664)) \<and>
   map_sum id asset_metrics (mexem_load_and_process round_double Map.empty
     [[''Trades'', ''Header'', ''Symbol'', ''Quantity'', ''T. Price'', ''Comm/Fee''],
      [''Trades'', ''Data'', ''AAPL'', ''10'', ''100'', ''1''],
      [''Trades'', ''Data'', ''AAPL'', ''5'', ''110'', ''0.5'']]) =
   Inr [(''AAPL'',
     \<lparr>total_quantity = Fin 15, total_cost = Fin 1550,
        avg_purchase_price = Fin (7271436898358613 / 70368744177664),
        current_price = Fin (7271436898358613 / 70368744177664),
        current_value = Fin 1550, absolute_pl = Fin 0,
        percentage_return = Some (Fin 0), realized_total = Fin 0, unrealized_total = Fin 0\<rparr>)] \<and>
   fdiv round_double (Fin 1550) (Fin 15) = Inr (Fin (7271436898358613 / 70368744177664))"
proof -
  have a: "fdiv round_double (Fin (3097 / 2)) (Fin 15) =
      Inr (Fin (7264400023940847 / 70368744177664))"
    by (simp add: rd_eval)
  have b: "fdiv round_double (Fin 1550) (Fin 15) = Inr (Fin (7271436898358613 / 70368744177664))"
    by (simp add: rd_eval)
  show ?thesis using scenario_pipeline mexem_scenario_pipeline a b by simp
qed

section \<open>Order of the trades\<close>

lemma fadd_commute: "fadd rnd a b = fadd rnd b a"
  by (cases a; cases b) (simp_all add: add.commute)

lemma fadd_exact_assoc: "fadd Fin (fadd Fin a b) c = fadd Fin a (fadd Fin b c)"
  by (cases a; cases b; cases c) simp_all

lemma fadd_exact_left_commute: "fadd Fin (fadd Fin a b) c = fadd Fin (fadd Fin a c) b"
  by (metis fadd_commute fadd_exact_assoc)

lemma add_trade_form:
  "(\<forall>totals. add_trade rnd trade totals = totals) \<or>
   (\<exists>q x. \<forall>tq tc. add_trade rnd trade (tq, tc) = (fadd rnd tq q, fadd rnd tc x))"
  by (auto simp: add_trade_def split: option.splits)

lemma mexem_add_trade_form:
  "(\<forall>totals. mexem_add_trade rnd trade totals = totals) \<or>
   (\<exists>q x. \<forall>tq tc. mexem_add_trade rnd trade (tq, tc) = (fadd rnd tq q, fadd rnd tc x))"
proof (cases "py_float rnd (dict_get trade ''Quantity'' ''0'')")
  case None
  then show ?thesis by (simp add: mexem_add_trade_def split: prod.splits)
next
  case q: (Some q)
  show ?thesis
  proof (cases "flt (Fin 0) q")
    case False
    then show ?thesis using q by (simp add: mexem_add_trade_def split: prod.splits)
  next
    case True
    show ?thesis
    proof (cases "py_float rnd (dict_get trade ''T. Price'' ''0'')")
      case None
      then show ?thesis using q True by (simp add: mexem_add_trade_def split: prod.splits)
    next
      case (Some p)
      have "\<forall>tq tc. mexem_add_trade rnd trade (tq, tc) =
              (fadd rnd tq q, fadd rnd tc (fmul rnd q p))"
        using q True Some by (simp add: mexem_add_trade_def)
      then show ?thesis by blast
    qed
  qed
qed

lemma add_trade_exact_commute:
  "add_trade Fin s \<circ> add_trade Fin t = add_trade Fin t \<circ> add_trade Fin s"
proof
  fix totals :: "pyfloat \<times> pyfloat"
  obtain tq tc where p: "totals = (tq, tc)" by (cases totals)
  show "(add_trade Fin s \<circ> add_trade Fin t) totals = (add_trade Fin t \<circ> add_trade Fin s) totals"
    using add_trade_form [of Fin s] add_trade_form [of Fin t]
    by (auto simp: p fadd_exact_left_commute)
qed

lemma mexem_add_trade_exact_commute:
  "mexem_add_trade Fin s \<circ> mexem_add_trade Fin t = mexem_add_trade Fin t \<circ> mexem_add_trade Fin s"
proof
  fix totals :: "pyfloat \<times> pyfloat"
  obtain tq tc where p: "totals = (tq, tc)" by (cases totals)
  show "(mexem_add_trade Fin s \<circ> mexem_add_trade Fin t) totals =
        (mexem_add_trade Fin t \<circ> mexem_add_trade Fin s) totals"
    using mexem_add_trade_form [of Fin s] mexem_add_trade_form [of Fin t]
    by (auto simp: p fadd_exact_left_commute)
qed

lemma totals_exact_permutation:
  assumes "mset trades' = mset trades"
  shows "fold (add_trade Fin) trades' = fold (add_trade Fin) trades"
    and "fold (mexem_add_trade Fin) trades' = fold (mexem_add_trade Fin) trades"
  using assms
  by (auto intro!: fold_multiset_equiv simp: add_trade_exact_commute
      mexem_add_trade_exact_commute)

lemma total_quantity_of_totals:
  "map_sum id total_quantity (metrics_of_totals rnd cp rs symb (tq, tc)) = Inr tq"
proof -
  obtain m where m: "metrics_of_totals rnd cp rs symb (tq, tc) = Inr m"
    using metrics_of_totals_Inr by blast
  show ?thesis using metrics_of_totals_fields(1) [OF m] by (simp add: m)
qed

lemma total_cost_of_totals:
  "map_sum id total_cost (metrics_of_totals rnd cp rs symb (tq, tc)) = Inr tc"
proof -
  obtain m where m: "metrics_of_totals rnd cp rs symb (tq, tc) = Inr m"
    using metrics_of_totals_Inr by blast
  show ?thesis using metrics_of_totals_fields(2) [OF m] by (simp add: m)
qed

lemma tenths_floats:
  "py_float round_double ''0.1'' = Some (Fin (3602879701896397 / 36028797018963968))"
  "py_float round_double ''0.2'' = Some (Fin (3602879701896397 / 18014398509481984))"
  "py_float round_double ''0.3'' = Some (Fin (5404319552844595 / 18014398509481984))"
  "py_float round_double ''10'' = Some (Fin 10)"
  "py_float round_double ''0'' = Some (Fin 0)"
  by (simp_all add: float_eval str_eval rd_eval)

lemma tenths_ascending:
  "fold (add_trade round_double)
     [[(''Quantity'', ''0.1''), (''T. Price'', ''10'')],
      [(''Quantity'', ''0.2''), (''T. Price'', ''10'')],
      [(''Quantity'', ''0.3''), (''T. Price'', ''10'')]] (Fin 0, Fin 0) =
   (Fin (1351079888211149 / 2251799813685248), Fin 6)"
  by (simp add: add_trade_def dict_get_def tenths_floats fsub_def rd_eval)

lemma tenths_descending:
  "fold (add_trade round_double)
     [[(''Quantity'', ''0.3''), (''T. Price'', ''10'')],
      [(''Quantity'', ''0.2''), (''T. Price'', ''10'')],
      [(''Quantity'', ''0.1''), (''T. Price'', ''10'')]] (Fin 0, Fin 0) =
   (Fin (5404319552844595 / 9007199254740992), Fin 6)"
  by (simp add: add_trade_def dict_get_def tenths_floats fsub_def rd_eval)

lemma mexem_tenths_ascending:
  "fold (mexem_add_trade round_double)
     [[(''Quantity'', ''0.1''), (''T. Price'', ''10'')],
      [(''Quantity'', ''0.2''), (''T. Price'', ''10'')],
      [(''Quantity'', ''0.3''), (''T. Price'', ''10'')]] (Fin 0, Fin 0) =
   (Fin (1351079888211149 / 2251799813685248), Fin 6)"
  by (simp add: mexem_add_trade_def dict_get_def tenths_floats rd_eval)

lemma mexem_tenths_descending:
  "fold (mexem_add_trade round_double)
     [[(''Quantity'', ''0.3''), (''T. Price'', ''10'')],
      [(''Quantity'', ''0.2''), (''T. Price'', ''10'')],
      [(''Quantity'', ''0.1''), (''T. Price'', ''10'')]] (Fin 0, Fin 0) =
   (Fin (5404319552844595 / 9007199254740992), Fin 6)"
  by (simp add: mexem_add_trade_def dict_get_def tenths_floats rd_eval)

text \<open>
  Claim C5, as stated, fails on both files: the totals are sums of floats, and the
  addition of floats is not associative. Three purchases of 0.1, 0.2 and 0.3 shares at
  10 give the total quantity 0.6000000000000001 in this order and 0.6 in the reverse
  order (the total cost is 6 in both orders).
\<close>

theorem rounded_totals_depend_on_order:
  "mset [[(''Quantity'', ''0.1''), (''T. Price'', ''10'')],
      [(''Quantity'', ''0.2''), (''T. Price'', ''10'')],
      [(''Quantity'', ''0.3''), (''T. Price'', ''10'')]] =
   mset [[(''Quantity'', ''0.3''), (''T. Price'', ''10'')],
      [(''Quantity'', ''0.2''), (''T. Price'', ''10'')],
      [(''Quantity'', ''0.1''), (''T. Price'', ''10'')]] \<and>
   map_sum id total_quantity (symbol_metrics round_double Map.empty [] ''X''
     [[(''Quantity'', ''0.1''), (''T. Price'', ''10'')],
      [(''Quantity'', ''0.2''), (''T. Price'', ''10'')],
      [(''Quantity'', ''0.3''), (''T. Price'', ''10'')]]) =
   Inr (Fin (1351079888211149 / 2251799813685248)) \<and>
   map_sum id total_quantity (symbol_metrics round_double Map.empty [] ''X''
     [[(''Quantity'', ''0.3''), (''T. Price'', ''10'')],
      [(''Quantity'', ''0.2''), (''T. Price'', ''10'')],
      [(''Quantity'', ''0.1''), (''T. Price'', ''10'')]]) =
   Inr (Fin (5404319552844595 / 9007199254740992)) \<and>
   map_sum id total_quantity (mexem_symbol_metrics round_double Map.empty [] ''X''
     [[(''Quantity'', ''0.1''), (''T. Price'', ''10'')],
      [(''Quantity'', ''0.2''), (''T. Price'', ''10'')],
      [(''Quantity'', ''0.3''), (''T. Price'', ''10'')]]) =
   Inr (Fin (1351079888211149 / 2251799813685248)) \<and>
   map_sum id total_quantity (mexem_symbol_metrics round_double Map.empty [] ''X''
     [[(''Quantity'', ''0.3''), (''T. Price'', ''10'')],
      [(''Quantity'', ''0.2''), (''T. Price'', ''10'')],
      [(''Quantity'', ''0.1''), (''T. Price'', ''10'')]]) =
   Inr (Fin (5404319552844595 / 9007199254740992)) \<and>
   Fin (1351079888211149 / 2251799813685248) \<noteq> Fin (5404319552844595 / 9007199254740992)"
proof -
  have p: "mset [[(''Quantity'', ''0.1''), (''T. Price'', ''10'')],
      [(''Quantity'', ''0.2''), (''T. Price'', ''10'')],
      [(''Quantity'', ''0.3''), (''T. Price'', ''10'')]] =
      mset [[(''Quantity'', ''0.3''), (''T. Price'', ''10'')],
      [(''Quantity'', ''0.2''), (''T. Price'', ''10'')],
      [(''Quantity'', ''0.1''), (''T. Price'', ''10'')]]"
    by simp
  have a: "map_sum id total_quantity (symbol_metrics round_double Map.empty [] ''X''
     [[(''Quantity'', ''0.1''), (''T. Price'', ''10'')],
      [(''Quantity'', ''0.2''), (''T. Price'', ''10'')],
      [(''Quantity'', ''0.3''), (''T. Price'', ''10'')]]) =
     Inr (Fin (1351079888211149 / 2251799813685248))"
    by (simp only: symbol_metrics_def tenths_ascending total_quantity_of_totals)
  have b: "map_sum id total_quantity (symbol_metrics round_double Map.empty [] ''X''
     [[(''Quantity'', ''0.3''), (''T. Price'', ''10'')],
      [(''Quantity'', ''0.2''), (''T. Price'', ''10'')],
      [(''Quantity'', ''0.1''), (''T. Price'', ''10'')]]) =
     Inr (Fin (5404319552844595 / 9007199254740992))"
    by (simp only: symbol_metrics_def tenths_descending total_quantity_of_totals)
  have c: "map_sum id total_quantity (mexem_symbol_metrics round_double Map.empty [] ''X''
     [[(''Quantity'', ''0.1''), (''T. Price'', ''10'')],
      [(''Quantity'', ''0.2''), (''T. Price'', ''10'')],
      [(''Quantity'', ''0.3''), (''T. Price'', ''10'')]]) =
     Inr (Fin (1351079888211149 / 2251799813685248))"
    by (simp only: mexem_symbol_metrics_def mexem_tenths_ascending total_quantity_of_totals)
  have d: "map_sum id total_quantity (mexem_symbol_metrics round_double Map.empty [] ''X''
     [[(''Quantity'', ''0.3''), (''T. Price'', ''10'')],
      [(''Quantity'', ''0.2''), (''T. Price'', ''10'')],
      [(''Quantity'', ''0.1''), (''T. Price'', ''10'')]]) =
     Inr (Fin (5404319552844595 / 9007199254740992))"
    by (simp only: mexem_symbol_metrics_def mexem_tenths_descending total_quantity_of_totals)
  have n: "Fin (1351079888211149 / 2251799813685248) \<noteq> Fin (5404319552844595 / 9007199254740992)"
    by simp
  from p a b c d n show ?thesis by blast
qed

text \<open>
  Claim C5, amended. In exact arithmetic, that is with no rounding of the float
  operations, the aggregation does not depend on the order of the trades of a symbol:
  for every permutation of the list the two totals, and with them all the metrics of
  the symbol, are the same, in both files. (With the rounding of IEEE doubles the totals
  of two orders can differ in the last bits, as above.)
\<close>

theorem exact_totals_order_independent:
  assumes "mset trades' = mset trades"
  shows "fold (add_trade Fin) trades' (Fin 0, Fin 0) = fold (add_trade Fin) trades (Fin 0, Fin 0) \<and>
    fold (mexem_add_trade Fin) trades' (Fin 0, Fin 0) =
      fold (mexem_add_trade Fin) trades (Fin 0, Fin 0) \<and>
    symbol_metrics Fin cp rs symb trades' = symbol_metrics Fin cp rs symb trades \<and>
    mexem_symbol_metrics Fin cp rs symb trades' = mexem_symbol_metrics Fin cp rs symb trades \<and>
    map_sum id total_quantity (symbol_metrics Fin cp rs symb trades) =
      Inr (fst (fold (add_trade Fin) trades (Fin 0, Fin 0))) \<and>
    map_sum id total_cost (symbol_metrics Fin cp rs symb trades) =
      Inr (snd (fold (add_trade Fin) trades (Fin 0, Fin 0))) \<and>
    map_sum id total_quantity (mexem_symbol_metrics Fin cp rs symb trades) =
      Inr (fst (fold (mexem_add_trade Fin) trades (Fin 0, Fin 0))) \<and>
    map_sum id total_cost (mexem_symbol_metrics Fin cp rs symb trades) =
      Inr (snd (fold (mexem_add_trade Fin) trades (Fin 0, Fin 0)))"
proof -
  have a: "fold (add_trade Fin) trades' = fold (add_trade Fin) trades"
    using assms by (rule totals_exact_permutation(1))
  have b: "fold (mexem_add_trade Fin) trades' = fold (mexem_add_trade Fin) trades"
    using assms by (rule totals_exact_permutation(2))
  have q: "map_sum id total_quantity (metrics_of_totals Fin cp rs symb t) = Inr (fst t)" for t
    by (cases t) (simp add: total_quantity_of_totals)
  have c: "map_sum id total_cost (metrics_of_totals Fin cp rs symb t) = Inr (snd t)" for t
    by (cases t) (simp add: total_cost_of_totals)
  show ?thesis
    by (simp add: symbol_metrics_def mexem_symbol_metrics_def a b q c)
qed

theorem exact_totals_order_independent_witness:
  "mset [[(''Quantity'', ''0.3''), (''T. Price'', ''10'')],
      [(''Quantity'', ''0.2''), (''T. Price'', ''10'')],
      [(''Quantity'', ''0.1''), (''T. Price'', ''10'')]] =
   mset [[(''Quantity'', ''0.1''), (''T. Price'', ''10'')],
      [(''Quantity'', ''0.2''), (''T. Price'', ''10'')],
      [(''Quantity'', ''0.3''), (''T. Price'', ''10'')]] \<and>
   symbol_metrics Fin Map.empty [] ''X''
     [[(''Quantity'', ''0.3''), (''T. Price'', ''10'')],
      [(''Quantity'', ''0.2''), (''T. Price'', ''10'')],
      [(''Quantity'', ''0.1''), (''T. Price'', ''10'')]] =
   symbol_metrics Fin Map.empty [] ''X''
     [[(''Quantity'', ''0.1''), (''T. Price'', ''10'')],
      [(''Quantity'', ''0.2''), (''T. Price'', ''10'')],
      [(''Quantity'', ''0.3''), (''T. Price'', ''10'')]] \<and>
   map_sum id total_quantity (symbol_metrics Fin Map.empty [] ''X''
     [[(''Quantity'', ''0.1''), (''T. Price'', ''10'')],
      [(''Quantity'', ''0.2''), (''T. Price'', ''10'')],
      [(''Quantity'', ''0.3''), (''T. Price'', ''10'')]]) =
   Inr (Fin (3 / 5))"
proof -
  have h: "mset [[(''Quantity'', ''0.3''), (''T. Price'', ''10'')],
      [(''Quantity'', ''0.2''), (''T. Price'', ''10'')],
      [(''Quantity'', ''0.1''), (''T. Price'', ''10'')]] =
      mset [[(''Quantity'', ''0.1''), (''T. Price'', ''10'')],
      [(''Quantity'', ''0.2''), (''T. Price'', ''10'')],
      [(''Quantity'', ''0.3''), (''T. Price'', ''10'')]]"
    by simp
  note t = exact_totals_order_independent [OF h, of Map.empty "[]" "''X''"]
  have e: "fold (add_trade Fin)
     [[(''Quantity'', ''0.1''), (''T. Price'', ''10'')],
      [(''Quantity'', ''0.2''), (''T. Price'', ''10'')],
      [(''Quantity'', ''0.3''), (''T. Price'', ''10'')]] (Fin 0, Fin 0) =
     (Fin (3 / 5), Fin 6)"
    by (simp add: add_trade_def dict_get_def float_eval str_eval fsub_def)
  have q: "map_sum id total_quantity (symbol_metrics Fin Map.empty [] ''X''
     [[(''Quantity'', ''0.1''), (''T. Price'', ''10'')],
      [(''Quantity'', ''0.2''), (''T. Price'', ''10'')],
      [(''Quantity'', ''0.3''), (''T. Price'', ''10'')]]) =
     Inr (Fin (3 / 5))"
    by (simp only: symbol_metrics_def e total_quantity_of_totals)
  have s: "symbol_metrics Fin Map.empty [] ''X''
     [[(''Quantity'', ''0.3''), (''T. Price'', ''10'')],
      [(''Quantity'', ''0.2''), (''T. Price'', ''10'')],
      [(''Quantity'', ''0.1''), (''T. Price'', ''10'')]] =
     symbol_metrics Fin Map.empty [] ''X''
     [[(''Quantity'', ''0.1''), (''T. Price'', ''10'')],
      [(''Quantity'', ''0.2''), (''T. Price'', ''10'')],
      [(''Quantity'', ''0.3''), (''T. Price'', ''10'')]]"
    using t by blast
  from h s q show ?thesis by blast
qed

section \<open>A symbol with no price on the command line\<close>






















end
